theory Spec2Isabelle
  imports Complex_Main
begin

section \<open>JavaScript values used by the two front ends\<close>

text \<open>
  A thrown \<open>Error\<close> carries its message. A function that may throw returns
  \<open>js_error + 'a\<close>, with \<open>Inl\<close> for the throw (a rejected promise for an
  \<open>async\<close> function).
\<close>

datatype js_error = Error string

datatype Blob = Blob (blob_type: string) (blob_bytes: "nat list")

text \<open>Truthiness of a \<open>string | null\<close>: \<open>null\<close> and \<open>''\<close> are falsy.\<close>

definition truthy :: "string option \<Rightarrow> bool" where
  "truthy v = (case v of None \<Rightarrow> False | Some s \<Rightarrow> s \<noteq> [])"

text \<open>\<open>a || b\<close> on a \<open>string | null\<close> with a string default.\<close>

definition or_else :: "string option \<Rightarrow> string \<Rightarrow> string" where
  "or_else v d = (case v of None \<Rightarrow> d | Some s \<Rightarrow> if s = [] then d else s)"

fun starts_with :: "'a list \<Rightarrow> 'a list \<Rightarrow> bool" where
  "starts_with s [] = True"
| "starts_with [] (p # ps) = False"
| "starts_with (c # cs) (p # ps) = (c = p \<and> starts_with cs ps)"

text \<open>\<open>String.prototype.includes\<close>.\<close>

fun str_includes :: "'a list \<Rightarrow> 'a list \<Rightarrow> bool" where
  "str_includes [] sub = (sub = [])"
| "str_includes (c # cs) sub = (starts_with (c # cs) sub \<or> str_includes cs sub)"

function string_of_nat :: "nat \<Rightarrow> string" where
  "string_of_nat n =
     (if n < 10 then [char_of (48 + n)]
      else string_of_nat (n div 10) @ [char_of (48 + n mod 10)])"
  by pat_completeness auto
termination
  by (relation "measure id") auto

section \<open>The itinerary and source types (types.ts of both front ends)\<close>

text \<open>
  Both front ends declare \<open>DayItinerary\<close> with the three activity lists; they differ
  in the activity type, which is the parameter here.
\<close>

record 'a DayItineraryOf =
  date :: "string option"
  morning :: "'a list"
  afternoon :: "'a list"
  evening :: "'a list"

text \<open>
  The interface \<open>Itinerary\<close> names the optional fields \<open>day_1\<close>, \<open>day_2\<close> and
  \<open>day_3\<close>. The value the front ends hold is the object read from the backend's
  JSON (\<open>getItinerary\<close> returns \<open>any\<close>, the chat app stores
  \<open>JSON.parse(JSON.stringify(data.itinerary))\<close>), so it keeps every key the backend
  sent: it is a map from keys to days, and a key that is absent, or whose value is
  \<open>null\<close>, reads \<open>None\<close>.
\<close>

type_synonym 'a ItineraryOf = "string \<rightharpoonup> 'a DayItineraryOf"

text \<open>The property reads \<open>itinerary.day_1\<close>, \<open>itinerary.day_2\<close>, \<open>itinerary.day_3\<close>.\<close>

definition day_1 :: "'a ItineraryOf \<Rightarrow> 'a DayItineraryOf option" where
  "day_1 it = it ''day_1''"

definition day_2 :: "'a ItineraryOf \<Rightarrow> 'a DayItineraryOf option" where
  "day_2 it = it ''day_2''"

definition day_3 :: "'a ItineraryOf \<Rightarrow> 'a DayItineraryOf option" where
  "day_3 it = it ''day_3''"

text \<open>voice-frontend/src/types.ts\<close>

record VoiceLocation =
  lat :: "real option"
  lng :: "real option"
  address :: "string option"

record VoiceActivity =
  va_id :: string
  va_name :: string
  va_start_time :: string
  va_end_time :: string
  va_duration_minutes :: int
  va_category :: "string option"
  va_location :: "VoiceLocation option"

type_synonym VoiceDayItinerary = "VoiceActivity DayItineraryOf"
type_synonym VoiceItinerary = "VoiceActivity ItineraryOf"

record VoiceSource =
  vs_id :: string
  vs_name :: string
  vs_type :: string
  vs_url :: "string option"

section \<open>voice-frontend/src/utils/api.ts\<close>

text \<open>
  What the code reads of a \<open>fetch\<close> response. \<open>headers\<close> is
  \<open>response.headers.get\<close>; \<open>error_json\<close> is the outcome of
  \<open>response.json()\<close> on an error response (\<open>None\<close> when it throws, else the
  \<open>detail\<close> and \<open>message\<close> fields); \<open>body_text\<close> and \<open>body_blob\<close> are the
  outcomes of \<open>response.text()\<close> (\<open>None\<close> when it throws) and
  \<open>response.blob()\<close> (\<open>Inl\<close> when it rejects).
\<close>

record HttpResponse =
  ok :: bool
  status :: nat
  headers :: "string \<Rightarrow> string option"
  error_json :: "(string option \<times> string option) option"
  body_text :: "string option"
  body_blob :: "js_error + Blob"

datatype FormValue = FileField Blob string | TextField string

record Request =
  req_url :: string
  req_method :: string
  req_body :: "(string \<times> FormValue) list"

text \<open>
  The browser and the network, as far as \<open>sendVoiceMessage\<close> calls them:
  \<open>fetch\<close> (\<open>Inl\<close> when the promise rejects), \<open>atob\<close> (\<open>None\<close> when it throws
  on text that is not base64) and \<open>JSON.parse\<close> of the sources header (\<open>None\<close> when
  it throws; the parsed value is taken to be an array, as the declared type
  \<open>any[]\<close> says).
\<close>

record ApiEnv =
  api_base_url :: string
  fetch :: "Request \<Rightarrow> js_error + HttpResponse"
  atob :: "string \<Rightarrow> string option"
  parse_sources :: "string \<Rightarrow> VoiceSource list option"

record VoiceResult =
  audioBlob :: Blob
  res_sessionId :: string
  transcribedText :: string
  aiResponse :: string
  res_sources :: "VoiceSource list"

definition extension :: "Blob \<Rightarrow> string" where
  "extension b =
     (if str_includes (blob_type b) ''webm'' then ''webm''
      else if str_includes (blob_type b) ''wav'' then ''wav''
      else if str_includes (blob_type b) ''ogg'' then ''ogg''
      else ''webm'')"

definition voice_request :: "ApiEnv \<Rightarrow> Blob \<Rightarrow> string option \<Rightarrow> Request" where
  "voice_request env b sid =
     \<lparr> req_url = api_base_url env @ ''/voice/chat'',
       req_method = ''POST'',
       req_body =
         [(''audio'', FileField b (''recording.'' @ extension b))]
         @ (if truthy sid then [(''session_id'', TextField (the sid))] else [])
         @ [(''language'', TextField ''en''),
            (''voice'', TextField ''default''),
            (''speed'', TextField ''1.0'')] \<rparr>"

text \<open>The message thrown for a response that is not \<open>ok\<close> (lines 54 to 70).\<close>

definition error_detail :: "HttpResponse \<Rightarrow> string" where
  "error_detail r =
     (let dflt = ''HTTP error! status: '' @ string_of_nat (status r) in
      case error_json r of
        Some (detail, message) \<Rightarrow> or_else detail (or_else message dflt)
      | None \<Rightarrow> (case body_text r of Some t \<Rightarrow> or_else (Some t) dflt | None \<Rightarrow> dflt))"

text \<open>
  The \<open>base64\<close> block (lines 82 to 105). The two text headers are decoded first; a
  throw of \<open>atob\<close> there leaves the block through the outer \<open>catch\<close>, keeping what
  was assigned so far and skipping the sources. The sources have a \<open>try\<close> of their
  own.
\<close>

definition decode_sources :: "ApiEnv \<Rightarrow> HttpResponse \<Rightarrow> VoiceSource list" where
  "decode_sources env r =
     (case headers r ''X-Sources'' of
        None \<Rightarrow> []
      | Some enc \<Rightarrow>
          if enc = [] then []
          else (case atob env enc of
                  None \<Rightarrow> []
                | Some js \<Rightarrow> (case parse_sources env js of None \<Rightarrow> [] | Some ss \<Rightarrow> ss)))"

definition decode_base64 ::
  "ApiEnv \<Rightarrow> HttpResponse \<Rightarrow> string \<Rightarrow> string \<Rightarrow> string \<times> string \<times> VoiceSource list" where
  "decode_base64 env r t a =
     (case (if t \<noteq> [] then atob env t else Some t) of
        None \<Rightarrow> (t, a, [])
      | Some t' \<Rightarrow>
          (case (if a \<noteq> [] then atob env a else Some a) of
             None \<Rightarrow> (t', a, [])
           | Some a' \<Rightarrow> (t', a', decode_sources env r)))"

definition sendVoiceMessage ::
  "ApiEnv \<Rightarrow> Blob \<Rightarrow> string option \<Rightarrow> js_error + VoiceResult" where
  "sendVoiceMessage env b sid =
     (case fetch env (voice_request env b sid) of
        Inl e \<Rightarrow> Inl e
      | Inr r \<Rightarrow>
          if \<not> ok r then Inl (Error (error_detail r))
          else
            let newSessionId = or_else (headers r ''X-Session-Id'') (or_else sid '''');
                encoding = headers r ''X-Encoding'';
                t0 = or_else (headers r ''X-Transcribed-Text'') '''';
                a0 = or_else (headers r ''X-AI-Response'') '''';
                (t, a, srcs) =
                  (if encoding = Some ''base64'' then decode_base64 env r t0 a0
                   else (t0, a0, []))
            in case body_blob r of
                 Inl e \<Rightarrow> Inl e
               | Inr ab \<Rightarrow>
                   Inr \<lparr> audioBlob = ab, res_sessionId = newSessionId,
                         transcribedText = t, aiResponse = a, res_sources = srcs \<rparr>)"

text \<open>
  \<open>getItinerary\<close> and \<open>getSources\<close> (lines 119 to 137). \<open>session_json\<close> is the
  outcome of \<open>response.json()\<close> for \<open>GET /trip/session/<id>\<close>; a body that is not an
  object makes the caller's property access throw into the same \<open>catch\<close>, so it is
  \<open>Inl\<close> as well.
\<close>

record SessionData =
  current_itinerary :: "VoiceItinerary option"
  session_sources :: "VoiceSource list option"

record SessionResponse =
  session_ok :: bool
  session_status :: nat
  session_json :: "js_error + SessionData"

definition getItinerary ::
  "string \<Rightarrow> (string \<Rightarrow> js_error + SessionResponse) \<Rightarrow> string \<Rightarrow> js_error + SessionData" where
  "getItinerary base get sid =
     (case get (base @ ''/trip/session/'' @ sid) of
        Inl e \<Rightarrow> Inl e
      | Inr r \<Rightarrow>
          if \<not> session_ok r
          then Inl (Error (''Failed to fetch itinerary: '' @ string_of_nat (session_status r)))
          else session_json r)"

definition getSources ::
  "string \<Rightarrow> (string \<Rightarrow> js_error + SessionResponse) \<Rightarrow> string \<Rightarrow> VoiceSource list" where
  "getSources base get sid =
     (case getItinerary base get sid of
        Inl e \<Rightarrow> []
      | Inr d \<Rightarrow> (case session_sources d of None \<Rightarrow> [] | Some ss \<Rightarrow> ss))"

section \<open>voice-frontend/src/App.tsx\<close>

datatype Role = User | Assistant

record TranscriptMessage =
  msg_type :: Role
  msg_text :: string
  msg_timestamp :: "nat option"

datatype Tab = Plan | Voice

text \<open>
  The component's state: the \<open>useState\<close> cells, and of the two refs whether the
  recorder exists and what the audio player was last given to play. \<open>alerts\<close>
  collects the calls of \<open>alert\<close>.
\<close>

record AppState =
  activeTab :: Tab
  selectedDay :: nat
  isSourcesOpen :: bool
  isListening :: bool
  isProcessing :: bool
  transcript :: "TranscriptMessage list"
  itinerary :: "VoiceItinerary option"
  sources :: "VoiceSource list"
  sessionId :: "string option"
  recorder_ready :: bool
  audio_src :: "Blob option"
  alerts :: "string list"

text \<open>
  What one call of \<open>handleToggleListening\<close> meets outside the component: the clock
  (\<open>new Date()\<close>), the outcome of the recorder's \<open>stopRecording\<close> and
  \<open>startRecording\<close>, the voice endpoint, and the two \<open>GET\<close>s of the session that
  \<open>loadItinerary\<close> and \<open>loadSources\<close> make (two requests, so two outcomes).
\<close>

record AppEnv =
  api :: ApiEnv
  now :: nat
  stopRecording_result :: "js_error + Blob"
  startRecording_result :: "js_error + unit"
  itinerary_get :: "string \<Rightarrow> js_error + SessionResponse"
  sources_get :: "string \<Rightarrow> js_error + SessionResponse"

definition apology :: string where
  "apology = ''Sorry, I encountered an error processing your request. Please try again.''"

text \<open>
  \<open>loadItinerary\<close> and \<open>loadSources\<close> read \<open>sessionId\<close> from the closure of the
  render in which the handler was created: the first argument is that value, not the
  one a \<open>setSessionId\<close> of the same call has queued.
\<close>

definition loadItinerary :: "string option \<Rightarrow> AppEnv \<Rightarrow> AppState \<Rightarrow> AppState" where
  "loadItinerary sid env s =
     (if \<not> truthy sid then s
      else case getItinerary (api_base_url (api env)) (itinerary_get env) (the sid) of
             Inl e \<Rightarrow> s
           | Inr d \<Rightarrow>
               (case current_itinerary d of
                  None \<Rightarrow> s
                | Some it \<Rightarrow> s\<lparr>itinerary := Some it\<rparr>))"

definition loadSources :: "string option \<Rightarrow> AppEnv \<Rightarrow> VoiceSource list" where
  "loadSources sid env =
     (if \<not> truthy sid then []
      else getSources (api_base_url (api env)) (sources_get env) (the sid))"

text \<open>The body of the \<open>try\<close> once the response is there (lines 99 to 145).\<close>

definition process_response :: "AppEnv \<Rightarrow> string option \<Rightarrow> VoiceResult \<Rightarrow> AppState \<Rightarrow> AppState" where
  "process_response env sid r s =
     (let s1 = (if res_sessionId r \<noteq> [] then s\<lparr>sessionId := Some (res_sessionId r)\<rparr> else s);
          s2 = (if res_sources r \<noteq> [] then s1\<lparr>sources := res_sources r\<rparr> else s1);
          s3 = (if transcribedText r \<noteq> []
                then s2\<lparr>transcript := transcript s2 @
                       [\<lparr>msg_type = User, msg_text = transcribedText r,
                         msg_timestamp = Some (now env)\<rparr>]\<rparr>
                else s2);
          s4 = (if aiResponse r \<noteq> []
                then s3\<lparr>transcript := transcript s3 @
                       [\<lparr>msg_type = Assistant, msg_text = aiResponse r,
                         msg_timestamp = Some (now env)\<rparr>]\<rparr>
                else s3);
          s5 = s4\<lparr>audio_src := Some (audioBlob r)\<rparr>;
          s6 = loadItinerary sid env s5
      in if res_sources r = []
         then (let sessionSources = loadSources sid env
               in if sessionSources \<noteq> [] then s6\<lparr>sources := sessionSources\<rparr> else s6)
         else s6)"

definition handleToggleListening :: "AppEnv \<Rightarrow> AppState \<Rightarrow> AppState" where
  "handleToggleListening env s =
     (if \<not> recorder_ready s then s
      else if isListening s then
        (let s0 = s\<lparr>isListening := False, isProcessing := True\<rparr>;
             failed = s0\<lparr>transcript := transcript s0 @
                        [\<lparr>msg_type = Assistant, msg_text = apology,
                          msg_timestamp = Some (now env)\<rparr>]\<rparr>;
             after_try =
               (case stopRecording_result env of
                  Inl e \<Rightarrow> failed
                | Inr audio \<Rightarrow>
                    (case sendVoiceMessage (api env) audio (sessionId s) of
                       Inl e \<Rightarrow> failed
                     | Inr r \<Rightarrow> process_response env (sessionId s) r s0))
         in after_try\<lparr>isProcessing := False\<rparr>)
      else
        (case startRecording_result env of
           Inr u \<Rightarrow> s\<lparr>isListening := True\<rparr>
         | Inl e \<Rightarrow>
             s\<lparr>alerts := alerts s @
                  [''Failed to start recording. Please check microphone permissions.'']\<rparr>))"

text \<open>\<open>getAvailableDays\<close> and \<open>getDayItinerary\<close> (lines 172 to 190).\<close>

definition getAvailableDays :: "'a ItineraryOf option \<Rightarrow> nat list" where
  "getAvailableDays it =
     (case it of
        None \<Rightarrow> [1, 2, 3]
      | Some i \<Rightarrow>
          (let days = (if day_1 i \<noteq> None then [1] else [])
                    @ (if day_2 i \<noteq> None then [2] else [])
                    @ (if day_3 i \<noteq> None then [3] else [])
           in if days \<noteq> [] then days else [1, 2, 3]))"

text \<open>
  The key \<open>`day_${selectedDay}`\<close>: \<open>selectedDay\<close> is a whole number (1 at first,
  later a number a button of the day selector passed), which the template prints in
  decimal.
\<close>

definition day_key :: "nat \<Rightarrow> string" where
  "day_key n = ''day_'' @ string_of_nat n"


text \<open>
  components/DaySelector.tsx: one button for each of \<open>availableDays || [1, 2, 3]\<close>
  (an array is truthy, also the empty one), and a click on the button of \<open>day\<close>
  calls \<open>onSelectDay(day)\<close>, which is \<open>setSelectedDay\<close>. The app passes
  \<open>getAvailableDays()\<close>. \<open>onSelectDay_button i\<close> is the click on the button at
  position \<open>i\<close>; there is no button beyond the last one.
\<close>

definition DaySelector_days :: "nat list option \<Rightarrow> nat list" where
  "DaySelector_days availableDays = (case availableDays of Some ds \<Rightarrow> ds | None \<Rightarrow> [1, 2, 3])"

definition onSelectDay_button :: "nat \<Rightarrow> AppState \<Rightarrow> AppState" where
  "onSelectDay_button i s =
     (let days = DaySelector_days (Some (getAvailableDays (itinerary s)))
      in if i < length days then s\<lparr>selectedDay := days ! i\<rparr> else s)"

section \<open>frontend/src/types.ts and frontend/src/mockData.ts\<close>

record Location =
  loc_lat :: real
  loc_lon :: real

record Activity =
  activity_id :: "string option"
  name :: string
  start_time :: "string option"
  end_time :: "string option"
  duration_minutes :: "real option"
  travel_from_previous :: "real option"
  category :: "string option"
  activity_type :: "string option"
  description :: "string option"
  location :: "Location option"

type_synonym DayItinerary = "Activity DayItineraryOf"
type_synonym Itinerary = "Activity ItineraryOf"

record Source =
  url :: "string option"
  source :: "string option"
  section_label :: "string option"
  activities :: "string list option"
  title :: "string option"

record Message =
  role :: Role
  content :: string
  timestamp :: "nat option"

text \<open>
  \<open>ApiResponse\<close>, without \<open>tool_calls\<close> and \<open>usage\<close>, which \<open>sendMessage\<close>
  never reads. \<open>api_status\<close> is a string: the value comes from the wire.
\<close>

record ApiResponse =
  api_status :: string
  response :: string
  api_itinerary :: "Itinerary option"
  api_sources :: "Source list option"
  session_id :: "string option"
  api_error :: "string option"

definition mockItinerary :: Itinerary where
  "mockItinerary =
     [''day_1'' \<mapsto>
         \<lparr> date = Some ''2024-01-15'',
           morning =
             [\<lparr> activity_id = Some ''osm_12345'', name = ''Amber Fort'',
                 start_time = Some ''09:00'', end_time = Some ''12:00'',
                 duration_minutes = Some 180, travel_from_previous = Some 0,
                 category = Some ''cultural'', activity_type = Some ''History'',
                 description = Some ''Historic fort with stunning architecture and panoramic views of the city. A UNESCO World Heritage site.'',
                 location = Some \<lparr> loc_lat = 26.9855, loc_lon = 75.8513 \<rparr> \<rparr>],
           afternoon =
             [\<lparr> activity_id = Some ''osm_12346'', name = ''Jal Mahal'',
                 start_time = Some ''14:00'', end_time = Some ''15:30'',
                 duration_minutes = Some 90, travel_from_previous = Some 30,
                 category = Some ''sightseeing'', activity_type = Some ''Sightseeing'',
                 description = Some ''Beautiful water palace located in the middle of Man Sagar Lake. Perfect for photography.'',
                 location = Some \<lparr> loc_lat = 26.9535, loc_lon = 75.8465 \<rparr> \<rparr>],
           evening =
             [\<lparr> activity_id = Some ''osm_12347'', name = ''Chokhi Dhani'',
                 start_time = Some ''18:00'', end_time = Some ''21:00'',
                 duration_minutes = Some 180, travel_from_previous = Some 20,
                 category = Some ''food'', activity_type = Some ''Cultural Experience'',
                 description = Some ''Traditional Rajasthani village resort with authentic food and cultural performances.'',
                 location = Some \<lparr> loc_lat = 26.9124, loc_lon = 75.7873 \<rparr> \<rparr>] \<rparr>,
      ''day_2'' \<mapsto>
         \<lparr> date = Some ''2024-01-16'',
           morning =
             [\<lparr> activity_id = Some ''osm_12348'', name = ''City Palace'',
                 start_time = Some ''09:30'', end_time = Some ''12:00'',
                 duration_minutes = Some 150, travel_from_previous = Some 0,
                 category = Some ''cultural'', activity_type = Some ''History'',
                 description = Some ''The royal residence of the Maharaja of Jaipur, featuring beautiful courtyards and museums.'',
                 location = Some \<lparr> loc_lat = 26.9258, loc_lon = 75.8236 \<rparr> \<rparr>],
           afternoon =
             [\<lparr> activity_id = Some ''osm_12349'', name = ''Jantar Mantar'',
                 start_time = Some ''14:00'', end_time = Some ''15:30'',
                 duration_minutes = Some 90, travel_from_previous = Some 5,
                 category = Some ''cultural'', activity_type = Some ''History'',
                 description = Some ''An astronomical observatory with ancient instruments for measuring time and celestial positions.'',
                 location = Some \<lparr> loc_lat = 26.9247, loc_lon = 75.8246 \<rparr> \<rparr>],
           evening = [] \<rparr>]"

definition mockSources :: "Source list" where
  "mockSources =
     [\<lparr> url = Some ''https://en.wikivoyage.org/wiki/Jaipur#See'',
         source = Some ''Wikivoyage'', section_label = Some ''See'',
         activities = Some [''City Palace'', ''Jantar Mantar'', ''Amber Fort''],
         title = None \<rparr>,
      \<lparr> url = Some ''https://www.openstreetmap.org/node/12345'',
         source = Some ''OpenStreetMap'', section_label = Some ''Points of Interest'',
         activities = Some [''Jal Mahal''],
         title = None \<rparr>]"

section \<open>frontend/src/App.tsx\<close>

record ChatState =
  messages :: "Message list"
  chat_itinerary :: "Itinerary option"
  chat_sources :: "Source list"
  isLoading :: bool
  chat_sessionId :: "string option"
  useMockData :: bool

record ChatRequest =
  chat_url :: string
  chat_message :: string
  chat_session_id :: "string option"

text \<open>
  What the code reads of the response to \<open>POST /api/trip/chat\<close>; \<open>chat_json\<close> is
  the outcome of \<open>response.json()\<close>.
\<close>

record ChatResponse =
  chat_ok :: bool
  chat_http_status :: nat
  chat_json :: "js_error + ApiResponse"

record ChatEnv =
  chat_now :: nat
  chat_fetch :: "ChatRequest \<Rightarrow> js_error + ChatResponse"

text \<open>
  \<open>JSON.parse(JSON.stringify(data.itinerary))\<close> (line 84): a fresh copy of the
  day under every key, with its lists and activities. The value was itself read from
  JSON, so nothing is lost on the way.
\<close>

definition clone_location :: "Location \<Rightarrow> Location" where
  "clone_location l = \<lparr> loc_lat = loc_lat l, loc_lon = loc_lon l \<rparr>"

definition clone_activity :: "Activity \<Rightarrow> Activity" where
  "clone_activity a =
     \<lparr> activity_id = activity_id a, name = name a, start_time = start_time a,
       end_time = end_time a, duration_minutes = duration_minutes a,
       travel_from_previous = travel_from_previous a, category = category a,
       activity_type = activity_type a, description = description a,
       location = map_option clone_location (location a) \<rparr>"

definition clone_day :: "DayItinerary \<Rightarrow> DayItinerary" where
  "clone_day d =
     \<lparr> date = date d, morning = map clone_activity (morning d),
       afternoon = map clone_activity (afternoon d),
       evening = map clone_activity (evening d) \<rparr>"

definition deep_clone :: "Itinerary \<Rightarrow> Itinerary" where
  "deep_clone i = (\<lambda>key. map_option clone_day (i key))"

definition error_message :: "js_error \<Rightarrow> string" where
  "error_message e = (case e of Error m \<Rightarrow> m)"

text \<open>The update for a parsed body whose status is \<open>success\<close> (lines 71 to 99).\<close>

definition apply_success :: "ChatEnv \<Rightarrow> ApiResponse \<Rightarrow> ChatState \<Rightarrow> ChatState" where
  "apply_success env d s =
     (let s1 = s\<lparr>messages := messages s @
                  [\<lparr>role = Assistant, content = response d, timestamp = Some (chat_now env)\<rparr>]\<rparr>;
          s2 = (case api_itinerary d of
                  Some it \<Rightarrow> s1\<lparr>chat_itinerary := Some (deep_clone it)\<rparr>
                | None \<Rightarrow> s1);
          s3 = (case api_sources d of
                  Some ss \<Rightarrow> s2\<lparr>chat_sources := ss\<rparr>
                | None \<Rightarrow> s2)
      in if truthy (session_id d) then s3\<lparr>chat_sessionId := session_id d\<rparr> else s3)"

definition sendMessage :: "ChatEnv \<Rightarrow> string \<Rightarrow> ChatState \<Rightarrow> ChatState" where
  "sendMessage env msg s =
     (let s0 = s\<lparr>messages := messages s @
                  [\<lparr>role = User, content = msg, timestamp = Some (chat_now env)\<rparr>],
                isLoading := True\<rparr>;
          failed = (\<lambda>e. s0\<lparr>messages := messages s0 @
                     [\<lparr>role = Assistant,
                       content = ''Error: '' @ error_message e @ ''. '' @
                         (if useMockData s then ''''
                          else ''You can enable mock data mode to test the UI.''),
                       timestamp = Some (chat_now env)\<rparr>]\<rparr>);
          after_try =
            (if useMockData s then
               s0\<lparr>messages := messages s0 @
                    [\<lparr>role = Assistant,
                      content = ''I've created your 2-day cultural trip to Jaipur! Here's your itinerary.'',
                      timestamp = Some (chat_now env)\<rparr>],
                  chat_itinerary := Some mockItinerary,
                  chat_sources := mockSources\<rparr>
             else
               (case chat_fetch env \<lparr>chat_url = ''/api/trip/chat'', chat_message = msg,
                                     chat_session_id = chat_sessionId s\<rparr> of
                  Inl e \<Rightarrow> failed e
                | Inr r \<Rightarrow>
                    if \<not> chat_ok r
                    then failed (Error (''HTTP error! status: '' @ string_of_nat (chat_http_status r)))
                    else
                      (case chat_json r of
                         Inl e \<Rightarrow> failed e
                       | Inr d \<Rightarrow>
                           if api_status d = ''success'' then apply_success env d s0
                           else failed (Error (or_else (api_error d) ''Unknown error occurred'')))))
      in after_try\<lparr>isLoading := False\<rparr>)"

section \<open>frontend/src/components/ItineraryDisplay.tsx\<close>

datatype DayKey = Day1 | Day2 | Day3

datatype TimeSlot = Morning | Afternoon | Evening

text \<open>\<open>itinerary[selectedDay]\<close>\<close>

definition day_at :: "Itinerary \<Rightarrow> DayKey \<Rightarrow> DayItinerary option" where
  "day_at it sel = (case sel of Day1 \<Rightarrow> day_1 it | Day2 \<Rightarrow> day_2 it | Day3 \<Rightarrow> day_3 it)"

text \<open>
  \<open>itinerary[selectedDay]?.morning.length > 0\<close> and its siblings: false when the day
  is missing (\<open>undefined > 0\<close>).
\<close>

definition slot_nonempty :: "Itinerary \<Rightarrow> DayKey \<Rightarrow> (DayItinerary \<Rightarrow> Activity list) \<Rightarrow> bool" where
  "slot_nonempty it sel slot = (case day_at it sel of None \<Rightarrow> False | Some d \<Rightarrow> slot d \<noteq> [])"

text \<open>
  What the component renders, as far as the itinerary decides it: the heading of a
  time slot, the line \<open><t> min travel\<close>, the card of an activity, and the two
  placeholders.
\<close>

datatype Element =
    SlotHeader TimeSlot
  | TravelTime real
  | Card Activity
  | NoActivities
  | NoItinerary

definition showTravelTime :: "Itinerary \<Rightarrow> DayKey \<Rightarrow> nat \<Rightarrow> TimeSlot \<Rightarrow> bool" where
  "showTravelTime it sel index timeSlot =
     (let isFirstInSlot = (index = 0) in
      \<not> isFirstInSlot
      \<or> (timeSlot = Afternoon \<and> slot_nonempty it sel morning)
      \<or> (timeSlot = Evening \<and> (slot_nonempty it sel afternoon \<or> slot_nonempty it sel morning)))"

definition renderActivityCard ::
  "Itinerary \<Rightarrow> DayKey \<Rightarrow> Activity \<Rightarrow> nat \<Rightarrow> TimeSlot \<Rightarrow> Element list" where
  "renderActivityCard it sel activity index timeSlot =
     (case travel_from_previous activity of
        Some t \<Rightarrow> if showTravelTime it sel index timeSlot \<and> t > 0 then [TravelTime t] else []
      | None \<Rightarrow> [])
     @ [Card activity]"

definition renderTimeSlot ::
  "Itinerary \<Rightarrow> DayKey \<Rightarrow> TimeSlot \<Rightarrow> Activity list \<Rightarrow> Element list" where
  "renderTimeSlot it sel slot acts =
     (if acts = [] then []
      else SlotHeader slot #
           concat (map (\<lambda>(index, activity). renderActivityCard it sel activity index slot)
                       (enumerate 0 acts)))"

definition timeline :: "Itinerary \<Rightarrow> DayKey \<Rightarrow> Element list" where
  "timeline it sel =
     (case day_at it sel of
        Some currentDay \<Rightarrow>
          renderTimeSlot it sel Morning (morning currentDay)
          @ renderTimeSlot it sel Afternoon (afternoon currentDay)
          @ renderTimeSlot it sel Evening (evening currentDay)
          @ (if morning currentDay = [] \<and> afternoon currentDay = [] \<and> evening currentDay = []
             then [NoActivities] else [])
      | None \<Rightarrow> [NoItinerary])"




section \<open>voice-frontend/src/utils/voiceRecorder.ts\<close>

datatype RecordingState = Inactive | Recording | Paused

text \<open>
  The browser's \<open>MediaRecorder\<close> object behind the reference: its \<open>state\<close>, its
  \<open>mimeType\<close>, and which handlers the class has installed.
\<close>

record MediaRecorder =
  rec_state :: RecordingState
  mimeType :: string
  ondataavailable_set :: bool
  onstop_set :: bool
  onerror_set :: bool

text \<open>A \<open>MediaStream\<close> is known by its tracks; a track is live until it is stopped.\<close>

record MediaStream =
  tracks :: "nat list"

text \<open>
  The fields of a \<open>VoiceRecorder\<close>, and with them the tracks that are live in the
  browser: \<open>track.stop()\<close> acts on the track, not on the object's own fields.
\<close>

record VoiceRecorder =
  mediaRecorder :: "MediaRecorder option"
  audioChunks :: "Blob list"
  stream :: "MediaStream option"
  live_tracks :: "nat set"

definition new_VoiceRecorder :: VoiceRecorder where
  "new_VoiceRecorder =
     \<lparr> mediaRecorder = None, audioChunks = [], stream = None, live_tracks = {} \<rparr>"

text \<open>
  What \<open>startRecording\<close> meets: the outcome of \<open>getUserMedia\<close>, whether the global
  \<open>MediaRecorder\<close> exists, \<open>MediaRecorder.isTypeSupported\<close>, whether the
  constructor and \<open>start()\<close> throw, and the type a recorder without options records.
\<close>

record StartEnv =
  getUserMedia :: "js_error + MediaStream"
  has_MediaRecorder :: bool
  isTypeSupported :: "string \<Rightarrow> bool"
  constructor_throws :: bool
  start_throws :: bool
  default_mimeType :: string

definition mimeTypes :: "string list" where
  "mimeTypes =
     [''audio/wav'', ''audio/webm;codecs=opus'', ''audio/webm'',
      ''audio/ogg;codecs=opus'', ''audio/mp4'']"

definition start_failed :: js_error where
  "start_failed = Error ''Failed to start recording. Please check microphone permissions.''"

definition startRecording :: "StartEnv \<Rightarrow> VoiceRecorder \<Rightarrow> (js_error + unit) \<times> VoiceRecorder" where
  "startRecording env v =
     (case getUserMedia env of
        Inl e \<Rightarrow> (Inl start_failed, v)
      | Inr st \<Rightarrow>
          let v1 = v\<lparr>stream := Some st, live_tracks := live_tracks v \<union> set (tracks st)\<rparr> in
          if has_MediaRecorder env \<and> \<not> constructor_throws env then
            let mime = (case filter (isTypeSupported env) mimeTypes of
                          [] \<Rightarrow> default_mimeType env
                        | m # ms \<Rightarrow> m);
                rec = \<lparr> rec_state = Inactive, mimeType = mime, ondataavailable_set = True,
                        onstop_set = False, onerror_set = False \<rparr>;
                v2 = v1\<lparr>mediaRecorder := Some rec, audioChunks := []\<rparr>
            in if start_throws env then (Inl start_failed, v2)
               else (Inr (), v2\<lparr>mediaRecorder := Some (rec\<lparr>rec_state := Recording\<rparr>)\<rparr>)
          else (Inl start_failed, v1))"

definition cleanup :: "VoiceRecorder \<Rightarrow> VoiceRecorder" where
  "cleanup v =
     (case stream v of
        Some st \<Rightarrow> v\<lparr>live_tracks := live_tracks v - set (tracks st), stream := None,
                     mediaRecorder := None\<rparr>
      | None \<Rightarrow> v\<lparr>mediaRecorder := None\<rparr>)"

definition isRecording :: "VoiceRecorder \<Rightarrow> bool" where
  "isRecording v = (case mediaRecorder v of None \<Rightarrow> False | Some m \<Rightarrow> rec_state m = Recording)"

definition cancelRecording :: "VoiceRecorder \<Rightarrow> VoiceRecorder" where
  "cancelRecording v =
     cleanup (case mediaRecorder v of
                Some m \<Rightarrow>
                  if rec_state m = Recording
                  then v\<lparr>mediaRecorder := Some (m\<lparr>rec_state := Inactive\<rparr>)\<rparr>
                  else v
              | None \<Rightarrow> v)"

text \<open>
  What the browser does once \<open>stopRecording\<close> has called \<open>stop()\<close>: the data it
  hands to \<open>ondataavailable\<close>, and whether the \<open>stop\<close> or the \<open>error\<close> event
  comes first. On a recorder that is already inactive \<open>stop()\<close> throws in some
  browsers and does nothing in others; then no event follows.
\<close>

datatype RecorderEvent = StopEvent | ErrorEvent

record StopEnv =
  delivered :: "Blob list"
  event :: RecorderEvent
  stop_throws_when_inactive :: bool

text \<open>How the promise of \<open>stopRecording\<close> ends; \<open>Pending\<close> when it never settles.\<close>

datatype 'a Promise = Resolved 'a | Rejected js_error | Pending

definition stopRecording :: "StopEnv \<Rightarrow> VoiceRecorder \<Rightarrow> Blob Promise \<times> VoiceRecorder" where
  "stopRecording env v =
     (case mediaRecorder v of
        None \<Rightarrow> (Rejected (Error ''No recording in progress''), v)
      | Some m \<Rightarrow>
          let v1 = v\<lparr>mediaRecorder := Some (m\<lparr>onstop_set := True, onerror_set := True\<rparr>)\<rparr> in
          if rec_state m = Inactive then
            (if stop_throws_when_inactive env then (Rejected (Error ''InvalidStateError''), v1)
             else (Pending, v1))
          else
            (case event env of
               ErrorEvent \<Rightarrow> (Rejected (Error ''Recording error occurred''), cleanup v1)
             | StopEvent \<Rightarrow>
                 let chunks = audioChunks v1 @ filter (\<lambda>b. blob_bytes b \<noteq> []) (delivered env);
                     ty = (if mimeType m \<noteq> [] then mimeType m else ''audio/webm'');
                     audioBlob = Blob ty (concat (map blob_bytes chunks))
                 in (Resolved audioBlob, cleanup (v1\<lparr>audioChunks := chunks\<rparr>))))"

text \<open>
  The recorder is idle: nothing is recording, no recorder and no stream are held, and
  no track of the stream \<open>held\<close> before the call is live any more.
\<close>

definition idle_after :: "MediaStream option \<Rightarrow> VoiceRecorder \<Rightarrow> bool" where
  "idle_after held v =
     (\<not> isRecording v \<and> mediaRecorder v = None \<and> stream v = None
      \<and> (case held of None \<Rightarrow> True | Some st \<Rightarrow> set (tracks st) \<inter> live_tracks v = {}))"

section \<open>Strings and regular expressions of the JavaScript runtime\<close>

text \<open>
  \<open>formatMessage\<close> writes a bullet (U+2022) and trims Unicode white space, so its
  strings are sequences of UTF-16 code units, as JavaScript counts them. \<open>js\<close> reads
  an ASCII literal.
\<close>

type_synonym jsstring = "nat list"

definition js :: "string \<Rightarrow> jsstring" where
  "js s = map of_char s"

text \<open>
  The code units of the productions \<open>LineTerminator\<close> and \<open>WhiteSpace\<close>; \<open>\s\<close>
  and \<open>trim\<close> take both.
\<close>

definition LineTerminator :: "nat \<Rightarrow> bool" where
  "LineTerminator c = (c = 10 \<or> c = 13 \<or> c = 8232 \<or> c = 8233)"

definition WhiteSpace :: "nat \<Rightarrow> bool" where
  "WhiteSpace c =
     (c = 9 \<or> c = 11 \<or> c = 12 \<or> c = 32 \<or> c = 160 \<or> c = 5760
      \<or> (8192 \<le> c \<and> c \<le> 8202) \<or> c = 8239 \<or> c = 8287 \<or> c = 12288 \<or> c = 65279)"

definition is_space :: "nat \<Rightarrow> bool" where
  "is_space c = (WhiteSpace c \<or> LineTerminator c)"

text \<open>\<open>String.prototype.trim\<close>\<close>

definition trim :: "jsstring \<Rightarrow> jsstring" where
  "trim s = rev (dropWhile is_space (rev (dropWhile is_space s)))"

text \<open>\<open>text.split('\n')\<close> and \<open>lines.join('\n')\<close>, for a one-character separator.\<close>

fun split_on :: "nat \<Rightarrow> jsstring \<Rightarrow> jsstring list" where
  "split_on sep [] = [[]]"
| "split_on sep (c # cs) =
     (if c = sep then [] # split_on sep cs
      else (case split_on sep cs of
              [] \<Rightarrow> [[c]]
            | piece # pieces \<Rightarrow> (c # piece) # pieces))"

fun join :: "nat \<Rightarrow> jsstring list \<Rightarrow> jsstring" where
  "join sep [] = []"
| "join sep [l] = l"
| "join sep (l # m # ls) = l @ sep # join sep (m # ls)"

text \<open>
  The regular expressions the code writes: a character class, the empty pattern,
  sequence, alternative, a quantifier \<open>*\<close> (greedy when the flag is set, lazy
  otherwise), a capture group with its number, a lookahead \<open>(?=...)\<close>, and the
  assertions \<open>^\<close> and \<open>$\<close>.
\<close>

datatype regex =
    Chars "nat \<Rightarrow> bool"
  | Eps
  | Seq regex regex
  | Alt regex regex
  | Star bool regex
  | Group nat regex
  | Look regex
  | Bol
  | Eol

type_synonym captures = "nat \<Rightarrow> jsstring option"

text \<open>
  A position of the matcher in its input: the code unit before it (none at the
  start), the input from it on, and the groups captured so far.
\<close>

record mstate =
  prev :: "nat option"
  rest :: jsstring
  caps :: captures

text \<open>
  The backtracking matcher: every way the pattern matches from a position, in the
  order in which the engine tries them, so that the head of the list is the match the
  engine reports. The flag is the \<open>m\<close> flag. An iteration of \<open>*\<close> that consumes
  nothing is dropped, as the engine does.
\<close>

function run :: "bool \<Rightarrow> regex \<Rightarrow> mstate \<Rightarrow> mstate list" where
  "run ml (Chars p) st =
     (case rest st of
        [] \<Rightarrow> []
      | c # cs \<Rightarrow> if p c then [st\<lparr>prev := Some c, rest := cs\<rparr>] else [])"
| "run ml Eps st = [st]"
| "run ml (Seq a b) st =
     concat (map (run ml b) (run ml a st))"
| "run ml (Alt a b) st = run ml a st @ run ml b st"
| "run ml (Star greedy r) st =
     (let more = concat (map (run ml (Star greedy r))
                   (filter (\<lambda>st'. length (rest st') < length (rest st)) (run ml r st)))
      in if greedy then more @ [st] else st # more)"
| "run ml (Group n r) st =
     map (\<lambda>st'. st'\<lparr>caps := (caps st')(n \<mapsto>
            take (length (rest st) - length (rest st')) (rest st))\<rparr>)
         (run ml r st)"
| "run ml (Look r) st =
     (case run ml r st of [] \<Rightarrow> [] | st' # sts \<Rightarrow> [st\<lparr>caps := caps st'\<rparr>])"
| "run ml Bol st =
     (case prev st of
        None \<Rightarrow> [st]
      | Some c \<Rightarrow> if ml \<and> LineTerminator c then [st] else [])"
| "run ml Eol st =
     (case rest st of
        [] \<Rightarrow> [st]
      | c # cs \<Rightarrow> if ml \<and> LineTerminator c then [st] else [])"
  by pat_completeness auto
termination
  by (relation "measures [\<lambda>(ml, r, st). size r, \<lambda>(ml, r, st). length (rest st)]") auto

declare run.simps(5) [simp del]

text \<open>A match never ends before it starts: what is left only gets shorter.\<close>

lemma run_length: "st' \<in> set (run ml r st) \<Longrightarrow> length (rest st') \<le> length (rest st)"
proof (induction ml r st arbitrary: st' rule: run.induct)
  case (1 ml p st)
  then show ?case by (cases "rest st") (auto split: if_splits)
next
  case (2 ml st)
  then show ?case by simp
next
  case (3 ml a b st)
  from 3(3) obtain m where m: "m \<in> set (run ml a st)" and s: "st' \<in> set (run ml b m)"
    by auto
  from 3(1) [OF m] 3(2) [OF m s] show ?case by simp
next
  case (4 ml a b st)
  from 4(3) have "st' \<in> set (run ml a st) \<or> st' \<in> set (run ml b st)" by simp
  with 4(1) 4(2) show ?case by blast
next
  case (5 ml greedy r st)
  let ?ms = "filter (\<lambda>m. length (rest m) < length (rest st)) (run ml r st)"
  from 5(3) have "st' = st \<or> (\<exists>m \<in> set ?ms. st' \<in> set (run ml (Star greedy r) m))"
    by (subst (asm) run.simps(5)) (auto simp: Let_def split: if_splits)
  then show ?case
  proof
    assume "st' = st" then show ?thesis by simp
  next
    assume "\<exists>m \<in> set ?ms. st' \<in> set (run ml (Star greedy r) m)"
    then obtain m where m: "m \<in> set ?ms" and s: "st' \<in> set (run ml (Star greedy r) m)"
      by blast
    from m have "length (rest m) < length (rest st)" by simp
    with 5(2) [OF m s] show ?thesis by simp
  qed
next
  case (6 ml n r st)
  from 6(2) obtain m where m: "m \<in> set (run ml r st)"
    and e: "st' = m\<lparr>caps := (caps m)(n \<mapsto> take (length (rest st) - length (rest m)) (rest st))\<rparr>"
    by auto
  from 6(1) [OF m] e show ?case by simp
next
  case (7 ml r st)
  then show ?case by (cases "run ml r st") auto
next
  case (8 ml st)
  then show ?case by (cases "prev st") (auto split: if_splits)
next
  case (9 ml st)
  then show ?case by (cases "rest st") (auto split: if_splits)
qed

definition start_state :: "nat option \<Rightarrow> jsstring \<Rightarrow> mstate" where
  "start_state p s = \<lparr> prev = p, rest = s, caps = Map.empty \<rparr>"

text \<open>
  The match that starts at this very position, if there is one: the text it takes
  and the position after it.
\<close>

definition match_here ::
  "bool \<Rightarrow> regex \<Rightarrow> nat option \<Rightarrow> jsstring \<Rightarrow> (jsstring \<times> mstate) option" where
  "match_here ml re p s =
     (case run ml re (start_state p s) of
        [] \<Rightarrow> None
      | st # sts \<Rightarrow> Some (take (length s - length (rest st)) s, st))"

text \<open>
  \<open>RegExp.prototype.exec\<close> without the sticky flag: the first position from here on
  at which the pattern matches; the text skipped before it, the text matched and the
  position after it.
\<close>

fun search ::
  "bool \<Rightarrow> regex \<Rightarrow> nat option \<Rightarrow> jsstring \<Rightarrow> (jsstring \<times> jsstring \<times> mstate) option" where
  "search ml re p [] =
     (case match_here ml re p [] of None \<Rightarrow> None | Some (m, st) \<Rightarrow> Some ([], m, st))"
| "search ml re p (c # cs) =
     (case match_here ml re p (c # cs) of
        Some (m, st) \<Rightarrow> Some ([], m, st)
      | None \<Rightarrow>
          (case search ml re (Some c) cs of
             None \<Rightarrow> None
           | Some (skipped, m, st) \<Rightarrow> Some (c # skipped, m, st)))"

text \<open>
  \<open>str.match(re)\<close> for a pattern without the \<open>g\<close> flag: \<open>None\<close> for \<open>null\<close>, else
  the groups, group 0 being the whole match.
\<close>

definition js_match :: "regex \<Rightarrow> jsstring \<Rightarrow> captures option" where
  "js_match re s =
     (case search False re None s of
        None \<Rightarrow> None
      | Some (skipped, m, st) \<Rightarrow> Some ((caps st)(0 \<mapsto> m)))"

text \<open>\<open>str.replace(re, rep)\<close> for a pattern without the \<open>g\<close> flag.\<close>

definition replace_first :: "regex \<Rightarrow> jsstring \<Rightarrow> jsstring \<Rightarrow> jsstring" where
  "replace_first re rep s =
     (case search False re None s of
        None \<Rightarrow> s
      | Some (skipped, m, st) \<Rightarrow> skipped @ rep @ rest st)"

lemma match_here_length:
  assumes "match_here ml re p s = Some (m, st)"
  shows "length m + length (rest st) = length s"
proof -
  from assms obtain sts where r: "run ml re (start_state p s) = st # sts"
    and m: "m = take (length s - length (rest st)) s"
    by (auto simp: match_here_def split: list.splits)
  from r have "st \<in> set (run ml re (start_state p s))" by simp
  from run_length [OF this] have "length (rest st) \<le> length s"
    by (simp add: start_state_def)
  with m show ?thesis by simp
qed

lemma search_length:
  "search ml re p s = Some (skipped, m, st) \<Longrightarrow>
     length skipped + length m + length (rest st) = length s"
proof (induction s arbitrary: p skipped)
  case Nil
  then show ?case
    by (auto split: option.splits dest: match_here_length)
next
  case (Cons c cs)
  show ?case
  proof (cases "match_here ml re p (c # cs)")
    case (Some a)
    with Cons.prems show ?thesis
      by (cases a) (auto dest: match_here_length)
  next
    case None
    with Cons.prems obtain sk where s: "search ml re (Some c) cs = Some (sk, m, st)"
      and k: "skipped = c # sk"
      by (auto split: option.splits)
    from Cons.IH [OF s] k show ?thesis by simp
  qed
qed

text \<open>
  \<open>str.replace(re, rep)\<close> for a pattern with the \<open>g\<close> flag: after a match the search
  goes on behind it; after an empty match it goes on one code unit further.
\<close>

function replace_all ::
  "bool \<Rightarrow> regex \<Rightarrow> jsstring \<Rightarrow> nat option \<Rightarrow> jsstring \<Rightarrow> jsstring" where
  "replace_all ml re rep p s =
     (case search ml re p s of
        None \<Rightarrow> s
      | Some (skipped, m, st) \<Rightarrow>
          skipped @ rep @
          (if m \<noteq> [] then replace_all ml re rep (prev st) (rest st)
           else (case rest st of
                   [] \<Rightarrow> []
                 | c # cs \<Rightarrow> c # replace_all ml re rep (Some c) cs)))"
  by pat_completeness auto
termination
proof (relation "measure (\<lambda>(ml, re, rep, p, s). length s)", goal_cases)
  case 1
  show ?case by simp
next
  case (2 ml re rep p s x skipped y m st)
  then have "search ml re p s = Some (skipped, m, st)" by simp
  from search_length [OF this] 2 show ?case by (cases m) auto
next
  case (3 ml re rep p s x skipped y m st c cs)
  then have "search ml re p s = Some (skipped, m, st)" by simp
  from search_length [OF this] 3 show ?case by simp
qed

declare replace_all.simps [simp del]

text \<open>
  \<open>str.split(re)\<close> for a pattern without capture groups: the pattern is tried at each
  position of the current piece; a match ends the piece, unless it is empty and the
  piece is too.
\<close>

function split_from :: "regex \<Rightarrow> nat option \<Rightarrow> jsstring \<Rightarrow> jsstring \<Rightarrow> jsstring list" where
  "split_from re p piece s =
     (case s of
        [] \<Rightarrow> [piece]
      | c # cs \<Rightarrow>
          (case match_here False re p s of
             None \<Rightarrow> split_from re (Some c) (piece @ [c]) cs
           | Some (m, st) \<Rightarrow>
               if m = [] \<and> piece = [] then split_from re (Some c) (piece @ [c]) cs
               else piece # split_from re (prev st) [] (rest st)))"
  by pat_completeness auto
termination
proof (relation "measures [\<lambda>(re, p, piece, s). length s, \<lambda>(re, p, piece, s). length piece]",
    goal_cases)
  case 1
  show ?case by simp
next
  case (2 re p piece s c cs)
  then show ?case by simp
next
  case (3 re p piece s c cs x m st)
  then show ?case by simp
next
  case (4 re p piece s c cs x m st)
  then have "match_here False re p s = Some (m, st)" by simp
  from match_here_length [OF this] 4 show ?case by (cases m) auto
qed

declare split_from.simps [simp del]

definition js_split :: "regex \<Rightarrow> jsstring \<Rightarrow> jsstring list" where
  "js_split re s =
     (if s = [] then (if match_here False re None [] = None then [[]] else [])
      else split_from re None [] s)"

text \<open>
  How the patterns are written. A literal character under the \<open>i\<close> flag matches
  the code units with the same canonical form; the patterns hold ASCII only, so a
  letter matches its two cases and nothing else.
\<close>

definition canonicalize :: "nat \<Rightarrow> nat" where
  "canonicalize c = (if 97 \<le> c \<and> c \<le> 122 then c - 32 else c)"

definition chr :: "char \<Rightarrow> regex" where
  "chr c = Chars (\<lambda>x. x = of_char c)"

definition chr_i :: "char \<Rightarrow> regex" where
  "chr_i c = Chars (\<lambda>x. canonicalize x = canonicalize (of_char c))"

definition seqs :: "regex list \<Rightarrow> regex" where
  "seqs rs = foldr Seq rs Eps"

fun any_of :: "regex list \<Rightarrow> regex" where
  "any_of [] = Chars (\<lambda>x. False)"
| "any_of [r] = r"
| "any_of (r # q # rs) = Alt r (any_of (q # rs))"

definition lit_i :: "string \<Rightarrow> regex" where
  "lit_i s = seqs (map chr_i s)"

definition one_or_more :: "regex \<Rightarrow> regex" where
  "one_or_more r = Seq r (Star True r)"

definition one_or_more_lazy :: "regex \<Rightarrow> regex" where
  "one_or_more_lazy r = Seq r (Star False r)"

definition zero_or_more :: "regex \<Rightarrow> regex" where
  "zero_or_more r = Star True r"

definition opt :: "regex \<Rightarrow> regex" where
  "opt r = Alt r Eps"

text \<open>\<open>\s\<close>, \<open>\d\<close>, \<open>.\<close>, \<open>[...]\<close>, \<open>[^...]\<close> and \<open>[^...]\<close> under the \<open>i\<close> flag.\<close>

definition ws :: regex where
  "ws = Chars is_space"

definition digit :: regex where
  "digit = Chars (\<lambda>x. 48 \<le> x \<and> x \<le> 57)"

definition dot :: regex where
  "dot = Chars (\<lambda>x. \<not> LineTerminator x)"

definition one_of :: "string \<Rightarrow> regex" where
  "one_of s = Chars (\<lambda>x. x \<in> of_char ` set s)"

definition none_of :: "string \<Rightarrow> regex" where
  "none_of s = Chars (\<lambda>x. x \<notin> of_char ` set s)"

definition none_of_i :: "string \<Rightarrow> regex" where
  "none_of_i s = Chars (\<lambda>x. canonicalize x \<notin> (canonicalize \<circ> of_char) ` set s)"

section \<open>formatMessage (voice-frontend/src/utils/formatMessage.ts)\<close>

text \<open>\<open>(Visit|Explore|Enjoy|See|Tour|Go to|Check out)\<close> under the \<open>i\<close> flag\<close>

definition verbs :: regex where
  "verbs = any_of (map lit_i
     [''Visit'', ''Explore'', ''Enjoy'', ''See'', ''Tour'', ''Go to'', ''Check out''])"

text \<open>\<open>/^-\s+/\<close> (line 24)\<close>

definition re_dash :: regex where
  "re_dash = seqs [Bol, chr CHR ''-'', one_or_more ws]"

text \<open>\<open>/^(Day\s+\d+)[:.]?\s*(.*)$/i\<close> (line 27)\<close>

definition re_day :: regex where
  "re_day =
     seqs [Bol, Group 1 (seqs [lit_i ''Day'', one_or_more ws, one_or_more digit]),
           opt (one_of '':.''), zero_or_more ws, Group 2 (zero_or_more dot), Eol]"

text \<open>\<open>/^(Morning|Afternoon|Evening|Night)[:.]?\s*(.*)$/i\<close> (line 43)\<close>

definition re_period :: regex where
  "re_period =
     seqs [Bol, Group 1 (any_of (map lit_i [''Morning'', ''Afternoon'', ''Evening'', ''Night''])),
           opt (one_of '':.''), zero_or_more ws, Group 2 (zero_or_more dot), Eol]"

text \<open>\<open>/(?:and|,)\s+(?=(?:Visit|Explore|Enjoy|See|Tour|Go to|Check out))/i\<close> (line 49)\<close>

definition re_separator :: regex where
  "re_separator = seqs [any_of [lit_i ''and'', chr CHR '',''], one_or_more ws, Look verbs]"

text \<open>
  \<open>/^(Visit|...|Check out)\s+(.+?)\s*(?:\(([^)]+)\)|from\s+([^to]+)\s+to\s+([^,]+))/i\<close>
  (line 64)
\<close>

definition re_activity_with_time :: regex where
  "re_activity_with_time =
     seqs [Bol, Group 1 verbs, one_or_more ws, Group 2 (one_or_more_lazy dot), zero_or_more ws,
           any_of
             [seqs [chr CHR ''('', Group 3 (one_or_more (none_of '')'')), chr CHR '')''],
              seqs [lit_i ''from'', one_or_more ws, Group 4 (one_or_more (none_of_i ''to'')),
                    one_or_more ws, lit_i ''to'', one_or_more ws,
                    Group 5 (one_or_more (none_of '',''))]]]"

text \<open>\<open>/^(Visit|...|Check out)\s+/i\<close> (line 76)\<close>

definition re_verb :: regex where
  "re_verb = seqs [Bol, Group 1 verbs, one_or_more ws]"

text \<open>\<open>/^\d+[.)]\s*(.+)$/\<close> (line 82)\<close>

definition re_numbered :: regex where
  "re_numbered =
     seqs [Bol, one_or_more digit, one_of ''.)'', zero_or_more ws, Group 1 (one_or_more dot), Eol]"

text \<open>\<open>/^(.+?)\s*\(([^)]+)\)$/\<close> (line 90)\<close>

definition re_simple_activity :: regex where
  "re_simple_activity =
     seqs [Bol, Group 1 (one_or_more_lazy dot), zero_or_more ws, chr CHR ''('',
           Group 2 (one_or_more (none_of '')'')), chr CHR '')'', Eol]"

text \<open>\<open>/\d+:\d+\s*(AM|PM)/i\<close> (line 95)\<close>

definition re_time :: regex where
  "re_time =
     seqs [one_or_more digit, chr CHR '':'', one_or_more digit, zero_or_more ws,
           Group 1 (any_of [lit_i ''AM'', lit_i ''PM''])]"

text \<open>\<open>/^- /gm\<close> (line 112) and \<open>/\n{3,}/g\<close> (line 115)\<close>

definition re_line_dash :: regex where
  "re_line_dash = seqs [Bol, chr CHR ''-'', chr CHR '' '']"

definition re_newlines :: regex where
  "re_newlines =
     seqs [Chars (\<lambda>x. x = 10), Chars (\<lambda>x. x = 10), Chars (\<lambda>x. x = 10),
           zero_or_more (Chars (\<lambda>x. x = 10))]"

text \<open>
  \<open>match[n]\<close> where the code tests it for truthiness or pastes it into a string: a
  group that took no part reads as the empty string there.
\<close>

definition grp :: "captures \<Rightarrow> nat \<Rightarrow> jsstring" where
  "grp m n = (case m n of None \<Rightarrow> [] | Some g \<Rightarrow> g)"

text \<open>A bullet line: two spaces, U+2022, a space, the text.\<close>

definition bullet :: "jsstring \<Rightarrow> jsstring" where
  "bullet a = js ''  '' @ [8226] @ js '' '' @ a"

text \<open>
  One round of the loop (lines 16 to 105) on \<open>formattedLines\<close> and \<open>currentDay\<close>;
  each \<open>continue\<close> is the end of a branch.
\<close>

type_synonym fstate = "jsstring list \<times> jsstring option"

definition format_line :: "fstate \<Rightarrow> jsstring \<Rightarrow> fstate" where
  "format_line st raw =
     (let (formattedLines, currentDay) = st;
          line0 = trim raw
      in if line0 = [] \<and> formattedLines = [] then st
         else
           let line = replace_first re_dash [] line0 in
           case js_match re_day line of
             Some dayMatch \<Rightarrow>
               (formattedLines
                  @ (if currentDay \<noteq> None then [[]] else [])
                  @ [js ''**'' @ grp dayMatch 1 @ js ''**'']
                  @ (if grp dayMatch 2 \<noteq> [] then [grp dayMatch 2] else []),
                Some (grp dayMatch 1))
           | None \<Rightarrow>
           (case js_match re_period line of
             Some periodMatch \<Rightarrow>
               (formattedLines
                  @ [js ''*'' @ grp periodMatch 1 @ js ''*'']
                  @ (if grp periodMatch 2 \<noteq> []
                     then map bullet
                            (filter (\<lambda>a. a \<noteq> [])
                               (map trim (js_split re_separator (grp periodMatch 2))))
                     else []),
                currentDay)
           | None \<Rightarrow>
           (case js_match re_activity_with_time line of
             Some m \<Rightarrow>
               (let activity = trim (grp m 2);
                    timeRange =
                      (if grp m 3 \<noteq> [] then grp m 3
                       else if grp m 4 \<noteq> [] \<and> grp m 5 \<noteq> []
                            then trim (grp m 4) @ js '' - '' @ trim (grp m 5)
                            else [])
                in (formattedLines
                      @ [bullet (activity
                           @ (if timeRange \<noteq> [] then js '' ('' @ timeRange @ js '')'' else []))],
                    currentDay))
           | None \<Rightarrow>
           (if js_match re_verb line \<noteq> None
            then (formattedLines @ [bullet line], currentDay)
            else
           (case js_match re_numbered line of
             Some numberedMatch \<Rightarrow>
               (formattedLines @ [bullet (grp numberedMatch 1)], currentDay)
           | None \<Rightarrow>
               (let as_activity =
                      (case js_match re_simple_activity line of
                         None \<Rightarrow> None
                       | Some m \<Rightarrow>
                           if currentDay \<noteq> None \<and> js_match re_time (trim (grp m 2)) \<noteq> None
                           then Some (bullet (trim (grp m 1) @ js '' ('' @ trim (grp m 2) @ js '')''))
                           else None)
                in case as_activity of
                     Some b \<Rightarrow> (formattedLines @ [b], currentDay)
                   | None \<Rightarrow>
                       (if line \<noteq> [] then formattedLines @ [line] else formattedLines,
                        currentDay)))))))"

definition formatMessage :: "jsstring \<Rightarrow> jsstring" where
  "formatMessage text =
     (if text = [] then text
      else
        let lines = split_on 10 text;
            formattedLines = fst (foldl format_line ([], None) lines);
            formatted = join 10 formattedLines;
            formatted = replace_all True re_line_dash [] None formatted;
            formatted = replace_all False re_newlines [10, 10] None formatted
        in trim formatted)"

text \<open>
  What \<open>replace(/\n{3,}/g, '\n\n')\<close> comes to: every run of three or more newlines
  becomes two, everything else stays.
\<close>

function collapse :: "jsstring \<Rightarrow> jsstring" where
  "collapse (a # b # c # t) =
     (if a = 10 \<and> b = 10 \<and> c = 10 then 10 # 10 # collapse (dropWhile (\<lambda>x. x = 10) t)
      else a # collapse (b # c # t))"
| "collapse [a, b] = [a, b]"
| "collapse [a] = [a]"
| "collapse [] = []"
  by pat_completeness auto
termination
  by (relation "measure length") (auto intro: le_imp_less_Suc length_dropWhile_le le_SucI)

section \<open>Concrete inputs\<close>

text \<open>The values at which the theorems below are instantiated and the code is run.\<close>

definition ex_blob :: Blob where
  "ex_blob = Blob ''audio/webm'' [82, 73, 70, 70]"

definition ex_reply_blob :: Blob where
  "ex_reply_blob = Blob ''audio/mpeg'' [73, 68, 51]"

definition ex_source_a :: VoiceSource where
  "ex_source_a = \<lparr> vs_id = ''a'', vs_name = ''Wikivoyage'', vs_type = ''guide'',
                   vs_url = Some ''https://en.wikivoyage.org/wiki/Jaipur'' \<rparr>"

definition ex_source_b :: VoiceSource where
  "ex_source_b = \<lparr> vs_id = ''b'', vs_name = ''Wikipedia'', vs_type = ''article'',
                   vs_url = Some ''https://en.wikipedia.org/wiki/Hawa_Mahal'' \<rparr>"

text \<open>An \<open>ok\<close> response with the given headers and an audio body.\<close>

definition ex_response :: "(string \<times> string) list \<Rightarrow> HttpResponse" where
  "ex_response hs =
     \<lparr> ok = True, status = 200, headers = map_of hs, error_json = None,
       body_text = None, body_blob = Inr ex_reply_blob \<rparr>"

text \<open>
  The browser's \<open>atob\<close>: the forgiving-base64 decode of the HTML standard. ASCII
  whitespace is removed; when the length is then a multiple of four, one or two
  closing \<open>=\<close> are removed; a length that leaves the remainder one, or a character
  outside the alphabet, makes \<open>atob\<close> throw; every character stands for six bits,
  and the bits make bytes, most significant bit first, the two or four bits left over
  being dropped. The result is a string with one character for every byte.
\<close>

definition b64_alphabet :: string where
  "b64_alphabet = ''ABCDEFGHIJKLMNOPQRSTUVWXYZabcdefghijklmnopqrstuvwxyz0123456789+/''"

fun index_from :: "nat \<Rightarrow> 'a \<Rightarrow> 'a list \<Rightarrow> nat option" where
  "index_from n x [] = None"
| "index_from n x (y # ys) = (if x = y then Some n else index_from (n + 1) x ys)"

definition sextet :: "nat \<Rightarrow> bool list" where
  "sextet n = map (\<lambda>i. odd (n div 2 ^ i)) [5, 4, 3, 2, 1, 0]"

fun octets :: "bool list \<Rightarrow> string" where
  "octets (b7 # b6 # b5 # b4 # b3 # b2 # b1 # b0 # bs) =
     Char b0 b1 b2 b3 b4 b5 b6 b7 # octets bs"
| "octets bs = []"

definition strip_padding :: "string \<Rightarrow> string" where
  "strip_padding t =
     (if length t mod 4 = 0 \<and> t \<noteq> [] \<and> last t = CHR ''=''
      then (let t1 = butlast t
            in if t1 \<noteq> [] \<and> last t1 = CHR ''='' then butlast t1 else t1)
      else t)"

definition atob_browser :: "string \<Rightarrow> string option" where
  "atob_browser t =
     (let t1 = strip_padding (filter (\<lambda>c. c \<notin> set [CHR 0x09, CHR 0x0A, CHR 0x0C, CHR 0x0D, CHR '' '']) t);
          vs = map (\<lambda>c. index_from 0 c b64_alphabet) t1
      in if length t1 mod 4 = 1 \<or> None \<in> set vs then None
         else Some (octets (concat (map (sextet \<circ> the) vs))))"

text \<open>
  The \<open>X-Sources\<close> headers of the examples, each with the JSON text it encodes: the
  array of one source, and the array that holds the same source twice.
\<close>

definition ex_sources_json_1 :: string where
  \<open>ex_sources_json_1 = ''[{"id":"b","name":"Wikipedia","type":"article","url":"https://en.wikipedia.org/wiki/Hawa_Mahal"}]''\<close>

definition ex_sources_header_1 :: string where
  "ex_sources_header_1 = ''W3siaWQiOiJiIiwibmFtZSI6Ildpa2lwZWRpYSIsInR5cGUiOiJhcnRpY2xlIiwidXJsIjoiaHR0cHM6Ly9lbi53aWtpcGVkaWEub3JnL3dpa2kvSGF3YV9NYWhhbCJ9XQ==''"

definition ex_sources_json_2 :: string where
  \<open>ex_sources_json_2 = ''[{"id":"b","name":"Wikipedia","type":"article","url":"https://en.wikipedia.org/wiki/Hawa_Mahal"},{"id":"b","name":"Wikipedia","type":"article","url":"https://en.wikipedia.org/wiki/Hawa_Mahal"}]''\<close>

definition ex_sources_header_2 :: string where
  "ex_sources_header_2 = ''W3siaWQiOiJiIiwibmFtZSI6Ildpa2lwZWRpYSIsInR5cGUiOiJhcnRpY2xlIiwidXJsIjoiaHR0cHM6Ly9lbi53aWtpcGVkaWEub3JnL3dpa2kvSGF3YV9NYWhhbCJ9LHsiaWQiOiJiIiwibmFtZSI6Ildpa2lwZWRpYSIsInR5cGUiOiJhcnRpY2xlIiwidXJsIjoiaHR0cHM6Ly9lbi53aWtpcGVkaWEub3JnL3dpa2kvSGF3YV9NYWhhbCJ9XQ==''"

text \<open>
  \<open>JSON.parse\<close> at the texts the examples hand it: the empty array (which is what
  the header \<open>W10=\<close> encodes) and the two arrays above. No example parses another
  text.
\<close>

definition ex_parse_sources :: "string \<Rightarrow> VoiceSource list option" where
  "ex_parse_sources t =
     (if t = ''[]'' then Some []
      else if t = ex_sources_json_1 then Some [ex_source_b]
      else if t = ex_sources_json_2 then Some [ex_source_b, ex_source_b]
      else None)"

text \<open>A browser whose \<open>fetch\<close> ends as given.\<close>

definition ex_api :: "(js_error + HttpResponse) \<Rightarrow> ApiEnv" where
  "ex_api outcome =
     \<lparr> api_base_url = ''/api'', fetch = (\<lambda>q. outcome),
       atob = atob_browser, parse_sources = ex_parse_sources \<rparr>"

definition ex_env :: "ApiEnv \<Rightarrow> AppEnv" where
  "ex_env a =
     \<lparr> api = a, now = 1700000000, stopRecording_result = Inr ex_blob,
       startRecording_result = Inr (),
       itinerary_get = (\<lambda>u. Inl (Error ''Failed to fetch'')),
       sources_get = (\<lambda>u. Inl (Error ''Failed to fetch'')) \<rparr>"

definition empty_day :: VoiceDayItinerary where
  "empty_day = \<lparr> date = None, morning = [], afternoon = [], evening = [] \<rparr>"

text \<open>
  The itinerary of \<open>n\<close> days: the object with the keys \<open>day_1\<close> to
  \<open>day_\<close>\<open>n\<close> and no other.
\<close>

definition first_days :: "nat \<Rightarrow> VoiceItinerary" where
  "first_days n = map_of (map (\<lambda>k. (day_key k, empty_day)) [1..<Suc n])"

text \<open>The voice app while it listens, in a session with the given sources.\<close>

definition ex_state :: "VoiceSource list \<Rightarrow> string option \<Rightarrow> AppState" where
  "ex_state srcs sid =
     \<lparr> activeTab = Voice, selectedDay = 1, isSourcesOpen = False, isListening = True,
       isProcessing = False, transcript = [], itinerary = Some (first_days 2),
       sources = srcs, sessionId = sid, recorder_ready = True, audio_src = None,
       alerts = [] \<rparr>"

definition ex_chat_env :: "(js_error + ChatResponse) \<Rightarrow> ChatEnv" where
  "ex_chat_env outcome = \<lparr> chat_now = 1700000000, chat_fetch = (\<lambda>q. outcome) \<rparr>"

definition ex_chat_state :: "Itinerary option \<Rightarrow> ChatState" where
  "ex_chat_state it =
     \<lparr> messages = [], chat_itinerary = it, chat_sources = [], isLoading = False,
       chat_sessionId = Some ''session-1'', useMockData = False \<rparr>"

definition ex_one_day :: Itinerary where
  "ex_one_day = Map.empty(''day_1'' := day_2 mockItinerary)"

definition ex_api_response :: "Itinerary option \<Rightarrow> ApiResponse" where
  "ex_api_response it =
     \<lparr> api_status = ''success'', response = ''Here is your plan.'', api_itinerary = it,
       api_sources = None, session_id = Some ''session-1'', api_error = None \<rparr>"

definition ex_chat_response :: "Itinerary option \<Rightarrow> ChatResponse" where
  "ex_chat_response it =
     \<lparr> chat_ok = True, chat_http_status = 200, chat_json = Inr (ex_api_response it) \<rparr>"

text \<open>
  A browser that grants the microphone (one track) and has no \<open>MediaRecorder\<close>.
\<close>

definition ex_start_env :: StartEnv where
  "ex_start_env =
     \<lparr> getUserMedia = Inr \<lparr> tracks = [1] \<rparr>, has_MediaRecorder = False,
       isTypeSupported = (\<lambda>t. False), constructor_throws = False,
       start_throws = False, default_mimeType = ''audio/webm'' \<rparr>"

definition ex_stop_env :: StopEnv where
  "ex_stop_env = \<lparr> delivered = [Blob ''audio/webm'' [1, 2]], event = StopEvent,
                   stop_throws_when_inactive = False \<rparr>"

section \<open>Words of the claims\<close>

text \<open>The session id a call of \<open>sendVoiceMessage\<close> returns, if it returns.\<close>

definition returned_sessionId :: "js_error + VoiceResult \<Rightarrow> string option" where
  "returned_sessionId p = (case p of Inl e \<Rightarrow> None | Inr r \<Rightarrow> Some (res_sessionId r))"



section \<open>The voice endpoint client\<close>

text \<open>
  Claim C9. For every voice-chat response whose \<open>X-Encoding\<close> header is not exactly
  \<open>base64\<close>, \<open>sendVoiceMessage\<close> returns an empty sources list, whatever the
  \<open>X-Sources\<close> header holds: when the call returns with sources, the encoding was
  \<open>base64\<close>.
\<close>

theorem C9_sources_only_when_base64:
  assumes "fetch env (voice_request env b sid) = Inr r"
      and "headers r ''X-Encoding'' \<noteq> Some ''base64''"
      and "sendVoiceMessage env b sid = Inr res"
  shows "res_sources res = []"
  using assms
  by (auto simp: sendVoiceMessage_def Let_def split: if_splits sum.splits)

theorem C9_witness:
  "fetch (ex_api (Inr (ex_response [(''X-Encoding'', ''utf-8''), (''X-Sources'', ''W10='')])))
         (voice_request
            (ex_api (Inr (ex_response [(''X-Encoding'', ''utf-8''), (''X-Sources'', ''W10='')])))
            ex_blob None)
     = Inr (ex_response [(''X-Encoding'', ''utf-8''), (''X-Sources'', ''W10='')])
   \<and> headers (ex_response [(''X-Encoding'', ''utf-8''), (''X-Sources'', ''W10='')]) ''X-Sources''
       = Some ''W10=''
   \<and> headers (ex_response [(''X-Encoding'', ''utf-8''), (''X-Sources'', ''W10='')]) ''X-Encoding''
       \<noteq> Some ''base64''
   \<and> (\<exists>res. sendVoiceMessage
                (ex_api (Inr (ex_response [(''X-Encoding'', ''utf-8''), (''X-Sources'', ''W10='')])))
                ex_blob None = Inr res
            \<and> res_sources res = [])"
proof -
  let ?r = "ex_response [(''X-Encoding'', ''utf-8''), (''X-Sources'', ''W10='')]"
  let ?env = "ex_api (Inr ?r)"
  have f: "fetch ?env (voice_request ?env ex_blob None) = Inr ?r"
    by (simp add: ex_api_def)
  have e: "headers ?r ''X-Encoding'' \<noteq> Some ''base64''"
    by (simp add: ex_response_def)
  have x: "headers ?r ''X-Sources'' = Some ''W10=''"
    by (simp add: ex_response_def)
  obtain res where r: "sendVoiceMessage ?env ex_blob None = Inr res"
    by (simp add: sendVoiceMessage_def ex_api_def ex_response_def Let_def)
  from C9_sources_only_when_base64 [OF f e r] f e x r show ?thesis by blast
qed

lemma sendVoiceMessage_sessionId:
  assumes "fetch a (voice_request a b sid) = Inr r" and "sendVoiceMessage a b sid = Inr res"
  shows "res_sessionId res = or_else (headers r ''X-Session-Id'') (or_else sid '''')"
  using assms
  by (auto simp: sendVoiceMessage_def Let_def split: if_splits sum.splits prod.splits)

section \<open>The voice app: one press of the microphone button\<close>

lemma app_completed:
  assumes "recorder_ready s" and "isListening s" and "stopRecording_result env = Inr audio"
      and "sendVoiceMessage (api env) audio (sessionId s) = Inr res"
  shows "handleToggleListening env s =
         (process_response env (sessionId s) res
            (s\<lparr>isListening := False, isProcessing := True\<rparr>))\<lparr>isProcessing := False\<rparr>"
  using assms by (simp add: handleToggleListening_def Let_def)

lemma loadItinerary_frame:
  "sessionId (loadItinerary sid env s) = sessionId s"
  "sources (loadItinerary sid env s) = sources s"
  "transcript (loadItinerary sid env s) = transcript s"
  by (simp_all add: loadItinerary_def split: sum.splits option.splits)

lemma process_response_sessionId:
  "sessionId (process_response env sid r s) =
     (if res_sessionId r \<noteq> [] then Some (res_sessionId r) else sessionId s)"
  by (simp add: process_response_def Let_def loadItinerary_frame)

lemma process_response_sources:
  "sources (process_response env sid r s) =
     (if res_sources r \<noteq> [] then res_sources r
      else if loadSources sid env \<noteq> [] then loadSources sid env
      else sources s)"
  by (simp add: process_response_def Let_def loadItinerary_frame)

text \<open>
  Claim C1. When the call of the backend fails (\<open>sendVoiceMessage\<close> throws: the
  request is rejected, the response is not \<open>ok\<close>, or its body cannot be read), the
  turn adds exactly one message to the transcript, the assistant's fixed apology, and
  leaves every other part of the state as it was before the turn, the itinerary, the
  sources and the session id among them; only the two progress flags are reset.
\<close>

theorem C1_failed_turn:
  assumes "recorder_ready s" and "isListening s"
      and "stopRecording_result env = Inr audio"
      and "sendVoiceMessage (api env) audio (sessionId s) = Inl e"
  shows "handleToggleListening env s =
           s\<lparr>isListening := False, isProcessing := False,
             transcript := transcript s @
               [\<lparr>msg_type = Assistant, msg_text = apology, msg_timestamp = Some (now env)\<rparr>]\<rparr>
         \<and> itinerary (handleToggleListening env s) = itinerary s
         \<and> sources (handleToggleListening env s) = sources s
         \<and> sessionId (handleToggleListening env s) = sessionId s"
  using assms by (simp add: handleToggleListening_def Let_def)

theorem C1_witness:
  "recorder_ready (ex_state [ex_source_a] (Some ''session-1''))
   \<and> isListening (ex_state [ex_source_a] (Some ''session-1''))
   \<and> sendVoiceMessage (ex_api (Inl (Error ''Failed to fetch''))) ex_blob (Some ''session-1'')
       = Inl (Error ''Failed to fetch'')
   \<and> map msg_text (transcript (handleToggleListening
         (ex_env (ex_api (Inl (Error ''Failed to fetch''))))
         (ex_state [ex_source_a] (Some ''session-1''))))
       = [''Sorry, I encountered an error processing your request. Please try again.'']
   \<and> itinerary (handleToggleListening
         (ex_env (ex_api (Inl (Error ''Failed to fetch''))))
         (ex_state [ex_source_a] (Some ''session-1''))) = Some (first_days 2)
   \<and> sources (handleToggleListening
         (ex_env (ex_api (Inl (Error ''Failed to fetch''))))
         (ex_state [ex_source_a] (Some ''session-1''))) = [ex_source_a]"
proof -
  let ?s = "ex_state [ex_source_a] (Some ''session-1'')"
  let ?env = "ex_env (ex_api (Inl (Error ''Failed to fetch'')))"
  have h1: "recorder_ready ?s" and h2: "isListening ?s"
    by (simp_all add: ex_state_def)
  have h3: "stopRecording_result ?env = Inr ex_blob"
    by (simp add: ex_env_def)
  have h4: "sendVoiceMessage (api ?env) ex_blob (sessionId ?s) = Inl (Error ''Failed to fetch'')"
    by (simp add: sendVoiceMessage_def ex_env_def ex_api_def ex_state_def)
  have h5: "sendVoiceMessage (ex_api (Inl (Error ''Failed to fetch''))) ex_blob
              (Some ''session-1'') = Inl (Error ''Failed to fetch'')"
    by (simp add: sendVoiceMessage_def ex_api_def)
  from C1_failed_turn [OF h1 h2 h3 h4] h1 h2 h5 show ?thesis
    by (simp add: ex_state_def apology_def)
qed

text \<open>
  Claim C5, as amended. The session id \<open>sendVoiceMessage\<close> returns is the
  \<open>X-Session-Id\<close> header when that header is present and not empty; otherwise it is
  the session id the caller supplied when that is not empty, and the empty string when
  there is none. The app stores a returned id only when it is not empty, so after a
  completed turn the session id is the header's value when the header is present and
  not empty, and the id of before the turn otherwise.
\<close>

theorem C5_session_id_round_trip:
  assumes "recorder_ready s" and "isListening s"
      and "stopRecording_result env = Inr audio"
      and "fetch (api env) (voice_request (api env) audio (sessionId s)) = Inr r"
      and "sendVoiceMessage (api env) audio (sessionId s) = Inr res"
  shows "res_sessionId res =
           (if truthy (headers r ''X-Session-Id'') then the (headers r ''X-Session-Id'')
            else if truthy (sessionId s) then the (sessionId s)
            else '''')
         \<and> sessionId (handleToggleListening env s) =
           (if truthy (headers r ''X-Session-Id'') then headers r ''X-Session-Id''
            else sessionId s)"
proof -
  have id: "res_sessionId res =
      or_else (headers r ''X-Session-Id'') (or_else (sessionId s) '''')"
    using assms(4,5) by (rule sendVoiceMessage_sessionId)
  have st: "sessionId (handleToggleListening env s) =
      (if res_sessionId res \<noteq> [] then Some (res_sessionId res) else sessionId s)"
    using assms(1,2,3,5) by (simp add: app_completed process_response_sessionId)
  show ?thesis
    unfolding st unfolding id
    by (auto simp: or_else_def truthy_def split: option.splits)
qed

text \<open>
  The claim as stated fails where the server sends the header with an empty value: the
  header is present, and the id returned is the caller's, not the header's.
\<close>

theorem C5_counterexample:
  "headers (ex_response [(''X-Session-Id'', '''')]) ''X-Session-Id'' = Some ''''
   \<and> returned_sessionId
        (sendVoiceMessage (ex_api (Inr (ex_response [(''X-Session-Id'', '''')])))
           ex_blob (Some ''session-1''))
      = Some ''session-1''"
  by (simp add: returned_sessionId_def sendVoiceMessage_def ex_api_def ex_response_def
      or_else_def Let_def)

theorem C5_witness:
  "recorder_ready (ex_state [] None) \<and> isListening (ex_state [] None)
   \<and> returned_sessionId
        (sendVoiceMessage (ex_api (Inr (ex_response [(''X-Session-Id'', ''session-7'')])))
           ex_blob None)
      = Some ''session-7''
   \<and> sessionId (handleToggleListening
        (ex_env (ex_api (Inr (ex_response [(''X-Session-Id'', ''session-7'')]))))
        (ex_state [] None))
      = Some ''session-7''"
proof -
  let ?r = "ex_response [(''X-Session-Id'', ''session-7'')]"
  let ?s = "ex_state [] None"
  let ?env = "ex_env (ex_api (Inr ?r))"
  have h1: "recorder_ready ?s" and h2: "isListening ?s"
    by (simp_all add: ex_state_def)
  have h3: "stopRecording_result ?env = Inr ex_blob"
    by (simp add: ex_env_def)
  have h4: "fetch (api ?env) (voice_request (api ?env) ex_blob (sessionId ?s)) = Inr ?r"
    by (simp add: ex_env_def ex_api_def)
  obtain res where h5: "sendVoiceMessage (api ?env) ex_blob (sessionId ?s) = Inr res"
    by (simp add: sendVoiceMessage_def ex_env_def ex_api_def ex_response_def Let_def)
  have t: "truthy (headers ?r ''X-Session-Id'')"
    and v: "headers ?r ''X-Session-Id'' = Some ''session-7''"
    by (simp_all add: truthy_def ex_response_def)
  have a: "api ?env = ex_api (Inr ?r)" and n: "sessionId ?s = None"
    by (simp_all add: ex_env_def ex_state_def)
  from C5_session_id_round_trip [OF h1 h2 h3 h4 h5] t v
  have "res_sessionId res = ''session-7''"
    and "sessionId (handleToggleListening ?env ?s) = Some ''session-7''"
    by simp_all
  with h1 h2 h5 a n show ?thesis
    by (simp add: returned_sessionId_def)
qed

text \<open>
  Claim C7, as amended. On a completed turn \<open>handleToggleListening\<close> replaces the
  app's citation list as a whole: by the sources of the response when the response has
  any; otherwise by the sources the session endpoint returns when it returns any;
  otherwise it leaves the list as it was. It neither appends to the list it had nor
  removes entries that share a URL.
\<close>

theorem C7_sources_replaced:
  assumes "recorder_ready s" and "isListening s"
      and "stopRecording_result env = Inr audio"
      and "sendVoiceMessage (api env) audio (sessionId s) = Inr res"
  shows "sources (handleToggleListening env s) =
           (if res_sources res \<noteq> [] then res_sources res
            else if loadSources (sessionId s) env \<noteq> [] then loadSources (sessionId s) env
            else sources s)"
  using assms by (simp add: app_completed process_response_sources)

text \<open>
  What the browser makes of the two \<open>X-Sources\<close> headers of the examples.
\<close>

lemma atob_sources_header_1: "atob_browser ex_sources_header_1 = Some ex_sources_json_1"
  by code_simp

lemma atob_sources_header_2: "atob_browser ex_sources_header_2 = Some ex_sources_json_2"
  by code_simp

lemma ex_sources_headers_nonempty: "ex_sources_header_1 \<noteq> []" "ex_sources_header_2 \<noteq> []"
  by (simp_all add: ex_sources_header_1_def ex_sources_header_2_def)

lemma decode_sources_header_1:
  "decode_sources (ex_api outcome)
     (ex_response [(''X-Encoding'', ''base64''), (''X-Sources'', ex_sources_header_1)])
   = [ex_source_b]"
  by (simp add: decode_sources_def ex_api_def ex_response_def atob_sources_header_1
      ex_parse_sources_def)
     (simp add: ex_sources_header_1_def ex_sources_json_1_def)

lemma decode_sources_header_2:
  "decode_sources (ex_api outcome)
     (ex_response [(''X-Encoding'', ''base64''), (''X-Sources'', ex_sources_header_2)])
   = [ex_source_b, ex_source_b]"
  by (simp add: decode_sources_def ex_api_def ex_response_def atob_sources_header_2
      ex_parse_sources_def)
     (simp add: ex_sources_header_2_def ex_sources_json_1_def ex_sources_json_2_def)

text \<open>
  The claim as stated fails for a session that holds one citation when the response
  brings another one twice (the \<open>X-Sources\<close> header is the base64 text of the JSON
  array that holds it twice): the citation held before is gone, and two entries share
  a URL.
\<close>

theorem C7_counterexample:
  "sources (ex_state [ex_source_a] (Some ''session-1'')) = [ex_source_a]
   \<and> sources (handleToggleListening
        (ex_env (ex_api (Inr (ex_response [(''X-Encoding'', ''base64''),
                                            (''X-Sources'', ex_sources_header_2)]))))
        (ex_state [ex_source_a] (Some ''session-1'')))
      = [ex_source_b, ex_source_b]
   \<and> ex_source_a \<noteq> ex_source_b"
proof -
  let ?r = "ex_response [(''X-Encoding'', ''base64''), (''X-Sources'', ex_sources_header_2)]"
  have "sendVoiceMessage (ex_api (Inr ?r)) ex_blob (Some ''session-1'')
          = Inr \<lparr> audioBlob = ex_reply_blob, res_sessionId = ''session-1'',
                  transcribedText = [], aiResponse = [],
                  res_sources = [ex_source_b, ex_source_b] \<rparr>"
    by (simp add: sendVoiceMessage_def decode_base64_def decode_sources_def ex_api_def
        ex_response_def or_else_def Let_def atob_sources_header_2 ex_parse_sources_def
        ex_sources_json_1_def ex_sources_json_2_def ex_sources_headers_nonempty)
  then show ?thesis
    by (simp add: handleToggleListening_def process_response_def loadItinerary_def
        loadSources_def getSources_def getItinerary_def truthy_def
        ex_state_def ex_env_def ex_source_a_def ex_source_b_def Let_def)
qed

theorem C7_witness:
  "recorder_ready (ex_state [ex_source_a] (Some ''session-1''))
   \<and> isListening (ex_state [ex_source_a] (Some ''session-1''))
   \<and> sources (handleToggleListening
        (ex_env (ex_api (Inr (ex_response [(''X-Encoding'', ''base64''),
                                            (''X-Sources'', ex_sources_header_1)]))))
        (ex_state [ex_source_a] (Some ''session-1'')))
      = [ex_source_b]"
proof -
  let ?r = "ex_response [(''X-Encoding'', ''base64''), (''X-Sources'', ex_sources_header_1)]"
  let ?s = "ex_state [ex_source_a] (Some ''session-1'')"
  let ?env = "ex_env (ex_api (Inr ?r))"
  have h1: "recorder_ready ?s" and h2: "isListening ?s"
    by (simp_all add: ex_state_def)
  have h3: "stopRecording_result ?env = Inr ex_blob"
    by (simp add: ex_env_def)
  have a: "api ?env = ex_api (Inr ?r)" and i: "sessionId ?s = Some ''session-1''"
    by (simp_all add: ex_env_def ex_state_def)
  have h4: "sendVoiceMessage (api ?env) ex_blob (sessionId ?s)
              = Inr \<lparr> audioBlob = ex_reply_blob, res_sessionId = ''session-1'',
                      transcribedText = [], aiResponse = [],
                      res_sources = [ex_source_b] \<rparr>"
    unfolding a i
    by (simp add: sendVoiceMessage_def decode_base64_def decode_sources_def ex_api_def
        ex_response_def or_else_def Let_def atob_sources_header_1 ex_parse_sources_def
        ex_sources_json_1_def ex_sources_headers_nonempty)
  from C7_sources_replaced [OF h1 h2 h3 h4] h1 h2 show ?thesis by simp
qed

section \<open>The chat app: one message\<close>

lemma clone_location_id: "clone_location l = l"
  by (simp add: clone_location_def)

lemma clone_activity_id: "clone_activity a = a"
  by (cases "location a") (simp_all add: clone_activity_def clone_location_id)

lemma map_clone_activity: "map clone_activity xs = xs"
  by (induction xs) (simp_all add: clone_activity_id)

lemma clone_day_id: "clone_day d = d"
  by (simp add: clone_day_def map_clone_activity)

lemma deep_clone_id: "deep_clone i = i"
proof -
  have "map_option clone_day x = x" for x
    by (cases x) (simp_all add: clone_day_id)
  then show ?thesis by (simp add: deep_clone_def)
qed

lemma apply_success_itinerary:
  "chat_itinerary (apply_success env d s) =
     (case api_itinerary d of Some it \<Rightarrow> Some it | None \<Rightarrow> chat_itinerary s)"
  by (simp add: apply_success_def Let_def deep_clone_id split: option.splits)

text \<open>In mock mode the stored itinerary becomes the sample itinerary.\<close>

lemma sendMessage_mock:
  "useMockData s \<Longrightarrow> chat_itinerary (sendMessage env msg s) = Some mockItinerary"
  by (simp add: sendMessage_def Let_def)

text \<open>
  When the call fails, the chat app shows the error's message, not a fixed text; the
  stored itinerary and sources stay as they were.
\<close>

lemma sendMessage_failed:
  assumes "\<not> useMockData s"
      and "chat_fetch env \<lparr>chat_url = ''/api/trip/chat'', chat_message = msg,
                           chat_session_id = chat_sessionId s\<rparr> = Inl e"
  shows "content (last (messages (sendMessage env msg s))) =
           ''Error: '' @ error_message e @ ''. You can enable mock data mode to test the UI.''
         \<and> chat_itinerary (sendMessage env msg s) = chat_itinerary s
         \<and> chat_sources (sendMessage env msg s) = chat_sources s"
  using assms by (simp add: sendMessage_def Let_def)

text \<open>
  Claim C2. For every completed turn (the response is \<open>ok\<close> and its status is
  \<open>success\<close>): when the response carries an itinerary, the stored itinerary becomes
  that itinerary, whatever was stored before; when it carries none, the stored
  itinerary stays as it was.
\<close>

theorem C2_itinerary_replaced_wholesale:
  assumes "\<not> useMockData s"
      and "chat_fetch env \<lparr>chat_url = ''/api/trip/chat'', chat_message = msg,
                           chat_session_id = chat_sessionId s\<rparr> = Inr r"
      and "chat_ok r" and "chat_json r = Inr d" and "api_status d = ''success''"
  shows "chat_itinerary (sendMessage env msg s) =
           (case api_itinerary d of Some it \<Rightarrow> Some it | None \<Rightarrow> chat_itinerary s)"
  using assms
  by (simp add: sendMessage_def Let_def apply_success_itinerary split: option.splits)

theorem C2_witness:
  "chat_itinerary (sendMessage (ex_chat_env (Inr (ex_chat_response (Some ex_one_day))))
       ''Remove day 2'' (ex_chat_state (Some mockItinerary)))
     = Some ex_one_day
   \<and> chat_itinerary (sendMessage (ex_chat_env (Inr (ex_chat_response None)))
       ''Why is Hawa Mahal recommended?'' (ex_chat_state (Some mockItinerary)))
     = Some mockItinerary"
proof -
  let ?s = "ex_chat_state (Some mockItinerary)"
  have m: "\<not> useMockData ?s" by (simp add: ex_chat_state_def)
  have a: "chat_itinerary (sendMessage (ex_chat_env (Inr (ex_chat_response (Some ex_one_day))))
             ''Remove day 2'' ?s) =
        (case api_itinerary (ex_api_response (Some ex_one_day)) of
           Some it \<Rightarrow> Some it | None \<Rightarrow> chat_itinerary ?s)"
    by (rule C2_itinerary_replaced_wholesale
          [OF m, where r = "ex_chat_response (Some ex_one_day)"])
       (simp_all add: ex_chat_env_def ex_chat_response_def ex_api_response_def)
  have b: "chat_itinerary (sendMessage (ex_chat_env (Inr (ex_chat_response None)))
             ''Why is Hawa Mahal recommended?'' ?s) =
        (case api_itinerary (ex_api_response None) of
           Some it \<Rightarrow> Some it | None \<Rightarrow> chat_itinerary ?s)"
    by (rule C2_itinerary_replaced_wholesale [OF m, where r = "ex_chat_response None"])
       (simp_all add: ex_chat_env_def ex_chat_response_def ex_api_response_def)
  show ?thesis
    using a b by (simp add: ex_api_response_def ex_chat_state_def)
qed

section \<open>The days an itinerary holds and the days the app offers\<close>


text \<open>Whatever the itinerary holds, no day after the third is offered or selected.\<close>

lemma getAvailableDays_first_three: "set (getAvailableDays it) \<subseteq> {1, 2, 3}"
  by (cases it) (auto simp: getAvailableDays_def Let_def split: if_splits)

lemma onSelectDay_button_first_three:
  assumes "selectedDay s \<in> {1, 2, 3}"
  shows "selectedDay (onSelectDay_button i s) \<in> {1, 2, 3}"
proof (cases "i < length (getAvailableDays (itinerary s))")
  case True
  have "getAvailableDays (itinerary s) ! i \<in> {1, 2, 3}"
    using getAvailableDays_first_three [of "itinerary s"] nth_mem [OF True] by blast
  with True show ?thesis
    by (simp add: onSelectDay_button_def DaySelector_days_def Let_def)
next
  case False
  with assms show ?thesis
    by (simp add: onSelectDay_button_def DaySelector_days_def Let_def)
qed






section \<open>Travel times on the itinerary display\<close>










text \<open>The first day of the sample itinerary, as displayed: the travel times shown.\<close>

lemma timeline_mock_day1:
  "map (\<lambda>e. case e of TravelTime t \<Rightarrow> Some t | _ \<Rightarrow> None) (timeline mockItinerary Day1)
   = [None, None, None, Some 30, None, None, Some 20, None]"
  by (simp add: timeline_def renderTimeSlot_def renderActivityCard_def showTravelTime_def
      slot_nonempty_def day_at_def mockItinerary_def day_1_def day_2_def day_3_def enumerate_eq_zip upt_rec)

section \<open>The voice recorder\<close>

text \<open>
  Where \<open>stopRecording\<close> resolves, where it rejects on the recorder's \<open>error\<close>
  event, and where \<open>cancelRecording\<close> returns, the recorder is idle.
\<close>

lemma settled_paths_idle:
  "(stopRecording env v = (Resolved b, v') \<longrightarrow> idle_after (stream v) v')
   \<and> (stopRecording env v = (Rejected (Error ''Recording error occurred''), v')
        \<longrightarrow> idle_after (stream v) v')
   \<and> idle_after (stream v) (cancelRecording v)"
  by (auto simp: stopRecording_def cancelRecording_def Let_def idle_after_def cleanup_def
      isRecording_def split: option.splits if_splits RecorderEvent.splits)

text \<open>
  Claim C10 at a recorder whose \<open>startRecording\<close> failed after the microphone was
  granted: the stream is held and its track is live. \<open>stopRecording\<close> then rejects
  with \<open>No recording in progress\<close> and returns before \<open>cleanup\<close>: the stream is
  still held and its track is still live, so the recorder is not idle.
\<close>

theorem C10_stream_left_open:
  "startRecording ex_start_env new_VoiceRecorder
     = (Inl start_failed,
        \<lparr> mediaRecorder = None, audioChunks = [], stream = Some \<lparr> tracks = [1] \<rparr>,
          live_tracks = {1} \<rparr>)
   \<and> stopRecording ex_stop_env (snd (startRecording ex_start_env new_VoiceRecorder))
     = (Rejected (Error ''No recording in progress''),
        \<lparr> mediaRecorder = None, audioChunks = [], stream = Some \<lparr> tracks = [1] \<rparr>,
          live_tracks = {1} \<rparr>)
   \<and> \<not> idle_after (Some \<lparr> tracks = [1] \<rparr>)
         (snd (stopRecording ex_stop_env (snd (startRecording ex_start_env new_VoiceRecorder))))"
  by (simp add: startRecording_def stopRecording_def ex_start_env_def ex_stop_env_def
      new_VoiceRecorder_def idle_after_def isRecording_def Let_def)

section \<open>formatMessage\<close>

lemma starts_with_iff: "starts_with s p \<longleftrightarrow> (\<exists>b. s = p @ b)"
  by (induction s p rule: starts_with.induct) auto

lemma str_includes_iff: "str_includes s p \<longleftrightarrow> (\<exists>a b. s = a @ p @ b)"
proof (induction s)
  case Nil
  then show ?case by auto
next
  case (Cons c cs)
  show ?case
  proof
    assume "str_includes (c # cs) p"
    then consider "starts_with (c # cs) p" | "str_includes cs p" by auto
    then show "\<exists>a b. c # cs = a @ p @ b"
    proof cases
      case 1
      then obtain b where "c # cs = p @ b" by (auto simp: starts_with_iff)
      then have "c # cs = [] @ p @ b" by simp
      then show ?thesis by blast
    next
      case 2
      with Cons.IH obtain a b where "cs = a @ p @ b" by blast
      then have "c # cs = (c # a) @ p @ b" by simp
      then show ?thesis by blast
    qed
  next
    assume "\<exists>a b. c # cs = a @ p @ b"
    then obtain a b where e: "c # cs = a @ p @ b" by blast
    show "str_includes (c # cs) p"
    proof (cases a)
      case Nil
      with e have "starts_with (c # cs) p" by (auto simp: starts_with_iff)
      then show ?thesis by simp
    next
      case (Cons x xs)
      with e have "cs = xs @ p @ b" by simp
      with Cons.IH have "str_includes cs p" by blast
      then show ?thesis by simp
    qed
  qed
qed

lemma str_includes_part:
  assumes "str_includes u p" and "s = a @ u @ b"
  shows "str_includes s p"
proof -
  from assms(1) obtain x y where "u = x @ p @ y" by (auto simp: str_includes_iff)
  with assms(2) have "s = (a @ x) @ p @ (y @ b)" by simp
  then show ?thesis unfolding str_includes_iff by blast
qed

text \<open>\<open>trim\<close> cuts a piece out of its argument, and the piece has clean ends.\<close>

lemma trim_part: "\<exists>a b. s = a @ trim s @ b"
proof -
  let ?u = "dropWhile is_space s"
  have "s = takeWhile is_space s @ ?u" by simp
  moreover have "?u = rev (dropWhile is_space (rev ?u)) @ rev (takeWhile is_space (rev ?u))"
    by (metis rev_append rev_rev_ident takeWhile_dropWhile_id)
  ultimately have "s = takeWhile is_space s @ trim s @ rev (takeWhile is_space (rev ?u))"
    by (simp add: trim_def)
  then show ?thesis by blast
qed

lemma trim_ends:
  assumes "trim s \<noteq> []"
  shows "\<not> is_space (hd (trim s)) \<and> \<not> is_space (last (trim s))"
proof -
  let ?u = "dropWhile is_space s"
  let ?w = "dropWhile is_space (rev ?u)"
  from assms have w: "?w \<noteq> []" by (simp add: trim_def)
  then have "\<not> is_space (hd ?w)" by (rule hd_dropWhile)
  with w have l: "\<not> is_space (last (trim s))" by (simp add: trim_def last_rev)
  have u: "?u \<noteq> []"
  proof
    assume e: "?u = []"
    have "?w = []" unfolding e by simp
    with w show False by contradiction
  qed
  then have h: "\<not> is_space (hd ?u)" by (rule hd_dropWhile)
  have "?u = trim s @ rev (takeWhile is_space (rev ?u))"
    unfolding trim_def by (metis rev_append rev_rev_ident takeWhile_dropWhile_id)
  with assms have "hd ?u = hd (trim s)" by (metis hd_append2)
  with h l show ?thesis by simp
qed

text \<open>
  The matcher on \<open>/\n{3,}/\<close>: it matches exactly where three newlines stand, and
  then takes the whole run.
\<close>

lemma star_chars_first:
  "\<exists>x xs. run ml (Star True (Chars p)) st = x # xs \<and> rest x = dropWhile p (rest st)"
proof (induction "rest st" arbitrary: st)
  case Nil
  then have "run ml (Star True (Chars p)) st = [st]"
    by (subst run.simps(5)) (simp add: Nil [symmetric])
  with Nil show ?case by simp
next
  case (Cons c cs)
  show ?case
  proof (cases "p c")
    case True
    let ?st' = "st\<lparr>prev := Some c, rest := cs\<rparr>"
    have "cs = rest ?st'" by simp
    from Cons(1) [OF this] obtain x xs where
      x: "run ml (Star True (Chars p)) ?st' = x # xs" "rest x = dropWhile p cs"
      by auto
    have "run ml (Star True (Chars p)) st = (x # xs) @ [st]"
      by (subst run.simps(5)) (simp add: Cons(2) [symmetric] True x)
    with x True Cons(2) show ?thesis by (simp flip: Cons(2))
  next
    case False
    have "run ml (Star True (Chars p)) st = [st]"
      by (subst run.simps(5)) (simp add: Cons(2) [symmetric] False)
    with False Cons(2) show ?thesis by (simp flip: Cons(2))
  qed
qed

lemma concat_run_Eps: "concat (map (run ml Eps) xs) = xs"
  by (induction xs) simp_all

lemma run_newlines_none:
  assumes "\<not> (\<exists>t. s = 10 # 10 # 10 # t)"
  shows "run ml re_newlines (start_state p s) = []"
proof -
  consider "s = []" | a where "s = [a]" | a b where "s = [a, b]"
    | a b c t where "s = a # b # c # t"
    by (cases s; cases "tl s"; cases "tl (tl s)") auto
  then show ?thesis
    using assms
    by cases (auto simp: re_newlines_def seqs_def zero_or_more_def start_state_def)
qed

lemma run_newlines_some:
  "\<exists>x xs. run ml re_newlines (start_state p (10 # 10 # 10 # t)) = x # xs
          \<and> rest x = dropWhile (\<lambda>x. x = 10) t"
proof -
  let ?st = "\<lparr>prev = Some 10, rest = t, caps = Map.empty\<rparr>"
  obtain x xs where x: "run ml (Star True (Chars (\<lambda>x. x = 10))) ?st = x # xs"
    "rest x = dropWhile (\<lambda>x. x = 10) (rest ?st)"
    using star_chars_first [of ml "\<lambda>x. x = 10" ?st] by blast
  have "run ml re_newlines (start_state p (10 # 10 # 10 # t)) = x # xs"
    by (simp add: re_newlines_def seqs_def zero_or_more_def start_state_def x concat_run_Eps)
  with x show ?thesis by simp
qed

lemma match_here_newlines_none:
  assumes "\<not> (\<exists>t. s = 10 # 10 # 10 # t)"
  shows "match_here ml re_newlines p s = None"
  by (simp add: match_here_def run_newlines_none [OF assms])

lemma match_here_newlines_some:
  "\<exists>m st. match_here ml re_newlines p (10 # 10 # 10 # t) = Some (m, st)
          \<and> m \<noteq> [] \<and> rest st = dropWhile (\<lambda>x. x = 10) t"
proof -
  obtain x xs where x: "run ml re_newlines (start_state p (10 # 10 # 10 # t)) = x # xs"
    "rest x = dropWhile (\<lambda>x. x = 10) t"
    using run_newlines_some by blast
  have "length (dropWhile (\<lambda>x. x = 10) t) \<le> length t" by (rule length_dropWhile_le)
  then have "take (length (10 # 10 # 10 # t) - length (rest x)) (10 # 10 # 10 # t) \<noteq> []"
    by (simp add: x Suc_diff_le)
  with x show ?thesis by (simp add: match_here_def)
qed

text \<open>Where the pattern does not match at the first position, that code unit is kept.\<close>

lemma replace_all_skip:
  assumes "match_here ml re p (c # cs) = None"
  shows "replace_all ml re rep p (c # cs) = c # replace_all ml re rep (Some c) cs"
proof (cases "search ml re (Some c) cs")
  case None
  with assms show ?thesis
    by (subst replace_all.simps, subst (2) replace_all.simps) simp
next
  case (Some a)
  then obtain sk m st where "search ml re (Some c) cs = Some (sk, m, st)"
    by (cases a) auto
  with assms show ?thesis
    by (subst replace_all.simps, subst (2) replace_all.simps) simp
qed

lemma replace_all_newlines: "replace_all ml re_newlines [10, 10] p s = collapse s"
proof (induction s arbitrary: p rule: collapse.induct)
  case (1 a b c t)
  show ?case
  proof (cases "a = 10 \<and> b = 10 \<and> c = 10")
    case True
    obtain m st where m: "match_here ml re_newlines p (10 # 10 # 10 # t) = Some (m, st)"
      "m \<noteq> []" "rest st = dropWhile (\<lambda>x. x = 10) t"
      using match_here_newlines_some by blast
    have "replace_all ml re_newlines [10, 10] p (10 # 10 # 10 # t) =
          10 # 10 # replace_all ml re_newlines [10, 10] (prev st) (rest st)"
      by (subst replace_all.simps) (simp add: m)
    with True 1(1) [OF True, of "prev st"] m show ?thesis by simp
  next
    case False
    then have "\<not> (\<exists>u. a # b # c # t = 10 # 10 # 10 # u)" by auto
    from match_here_newlines_none [OF this]
    have "replace_all ml re_newlines [10, 10] p (a # b # c # t) =
          a # replace_all ml re_newlines [10, 10] (Some a) (b # c # t)"
      by (rule replace_all_skip)
    with False 1(2) [OF False, of "Some a"] show ?thesis by auto
  qed
next
  case (2 a b)
  have "match_here ml re_newlines q [a, b] = None" for q
    by (rule match_here_newlines_none) simp
  moreover have "match_here ml re_newlines q [b] = None" for q
    by (rule match_here_newlines_none) simp
  moreover have "match_here ml re_newlines q [] = None" for q
    by (rule match_here_newlines_none) simp
  ultimately show ?case
    by (subst replace_all.simps) simp
next
  case (3 a)
  have "match_here ml re_newlines q [a] = None" for q
    by (rule match_here_newlines_none) simp
  moreover have "match_here ml re_newlines q [] = None" for q
    by (rule match_here_newlines_none) simp
  ultimately show ?case
    by (subst replace_all.simps) simp
next
  case 4
  have "match_here ml re_newlines q [] = None" for q
    by (rule match_here_newlines_none) simp
  then show ?case
    by (subst replace_all.simps) simp
qed

text \<open>After the replacement no three newlines stand in a row.\<close>

lemma collapse_not_newline: "c \<noteq> 10 \<Longrightarrow> collapse (c # u) = c # collapse u"
  by (cases u; cases "tl u") auto

lemma collapse_first:
  assumes "u = [] \<or> hd u \<noteq> 10"
  shows "collapse u = [] \<or> hd (collapse u) \<noteq> 10"
  using assms by (cases u) (auto simp: collapse_not_newline)

lemma collapse_no_triple: "\<not> str_includes (collapse s) [10, 10, 10]"
proof (induction s rule: collapse.induct)
  case (1 a b c t)
  show ?case
  proof (cases "a = 10 \<and> b = 10 \<and> c = 10")
    case True
    let ?u = "dropWhile (\<lambda>x. x = 10) t"
    have "?u = [] \<or> hd ?u \<noteq> 10"
      by (metis (mono_tags, lifting) hd_dropWhile)
    then have "collapse ?u = [] \<or> hd (collapse ?u) \<noteq> 10"
      by (rule collapse_first)
    then have "\<not> starts_with (10 # 10 # collapse ?u) [10, 10, 10]
             \<and> \<not> starts_with (10 # collapse ?u) [10, 10, 10]"
      by (cases "collapse ?u") auto
    moreover have "collapse (a # b # c # t) = 10 # 10 # collapse ?u"
      using True by simp
    ultimately show ?thesis using 1(1) [OF True] by simp
  next
    case False
    have "\<not> starts_with (a # collapse (b # c # t)) [10, 10, 10]"
    proof (cases "a = 10")
      case n: False
      then show ?thesis by simp
    next
      case a: True
      show ?thesis
      proof (cases "b = 10")
        case False
        then show ?thesis by (simp add: collapse_not_newline)
      next
        case True
        with a \<open>\<not> (a = 10 \<and> b = 10 \<and> c = 10)\<close> have c: "c \<noteq> 10" by simp
        have "collapse (b # c # t) = b # c # collapse t"
          using c by (cases t) (auto simp: collapse_not_newline)
        with c show ?thesis by simp
      qed
    qed
    moreover have "collapse (a # b # c # t) = a # collapse (b # c # t)"
      using False by auto
    ultimately show ?thesis using 1(2) [OF False] by simp
  qed
qed simp_all

text \<open>
  Claim C8. For every input string, the string \<open>formatMessage\<close> returns contains no
  three newline characters in a row (code unit 10), and it is empty or begins and ends
  with a code unit that is not white space.
\<close>

theorem C8_formatMessage_clean:
  "\<not> str_includes (formatMessage text) [10, 10, 10]
   \<and> (formatMessage text = []
      \<or> \<not> is_space (hd (formatMessage text)) \<and> \<not> is_space (last (formatMessage text)))"
proof (cases "text = []")
  case True
  then show ?thesis by (simp add: formatMessage_def)
next
  case False
  define f where
    "f = replace_all False re_newlines [10, 10] None
           (replace_all True re_line_dash [] None
              (join 10 (fst (foldl format_line ([], None) (split_on 10 text)))))"
  have fm: "formatMessage text = trim f"
    using False by (simp add: formatMessage_def f_def Let_def)
  have "\<not> str_includes f [10, 10, 10]"
    unfolding f_def replace_all_newlines by (rule collapse_no_triple)
  moreover obtain a b where "f = a @ trim f @ b" using trim_part by blast
  ultimately have "\<not> str_includes (trim f) [10, 10, 10]"
    using str_includes_part by blast
  with fm trim_ends [of f] show ?thesis by auto
qed

theorem C8_witness:
  "\<not> str_includes (formatMessage (js ''Day 1: Visit Amber Fort'')) [10, 10, 10]
   \<and> (formatMessage (js ''Day 1: Visit Amber Fort'') = []
      \<or> \<not> is_space (hd (formatMessage (js ''Day 1: Visit Amber Fort'')))
        \<and> \<not> is_space (last (formatMessage (js ''Day 1: Visit Amber Fort''))))"
  by (rule C8_formatMessage_clean)

text \<open>A text of white space only comes back empty.\<close>

lemma formatMessage_blank: "formatMessage [32, 10, 10, 10, 32] = []"
  by code_simp

end
